theory Spec2Isabelle
  imports Main
begin

section \<open>Shared data model\<close>

text \<open>
  The site is bilingual: every typed interface of the code takes a language of the
  TypeScript type \<^verbatim>\<open>'en' | 'ar'\<close>.

  Text is kept as \<^typ>\<open>string\<close>, holding the bytes the source file holds (UTF-8). The
  code modelled here tests a text for being empty, compares it with a literal and hands it
  on, none of which depends on the encoding.
\<close>

datatype language = En | Ar

text \<open>
  \<^verbatim>\<open>interface LocalizedText { en: string; ar: string }\<close> (src/data/projects.ts).
  At run time a field of an object can be missing, and \<^verbatim>\<open>localize\<close> reads the fields
  through \<^verbatim>\<open>(text as any)[lang]\<close>: a missing field reads as \<^verbatim>\<open>undefined\<close>, modelled as
  \<^const>\<open>None\<close>.
\<close>

record LocalizedText =
  en :: "string option"
  ar :: "string option"

text \<open>What a caller can pass where a \<^verbatim>\<open>LocalizedText\<close> is expected.\<close>

datatype text_arg = Undefined | Null | Text LocalizedText

section \<open>src/utils/localize.ts\<close>

text \<open>\<^verbatim>\<open>text[lang]\<close>: the property of the object named by the language.\<close>

fun field :: "LocalizedText \<Rightarrow> language \<Rightarrow> string option" where
  "field t En = en t"
| "field t Ar = ar t"

text \<open>
  \<^verbatim>\<open>a ?? b\<close>: the left operand unless it is \<^verbatim>\<open>undefined\<close> (or \<^verbatim>\<open>null\<close>), with
  the right operand evaluated only then.
\<close>

definition nullish :: "'a option \<Rightarrow> 'a option \<Rightarrow> 'a option" where
  "nullish a b = (case a of Some v \<Rightarrow> Some v | None \<Rightarrow> b)"

text \<open>The same operator where the right operand is a value that is always there.\<close>

definition nullish_or :: "'a option \<Rightarrow> 'a \<Rightarrow> 'a" where
  "nullish_or a b = (case a of Some v \<Rightarrow> v | None \<Rightarrow> b)"

text \<open>
  \<^verbatim>\<open>
  export function localize(text: LocalizedText, lang: 'en' | 'ar'): string {
    if (!text) return '';
    return (text as any)[lang] ?? (text as any).en ?? '';
  }
  \<close>
\<close>

fun localize :: "text_arg \<Rightarrow> language \<Rightarrow> string" where
  "localize Undefined lang = ''''"
| "localize Null lang = ''''"
| "localize (Text text) lang = nullish_or (nullish (field text lang) (en text)) ''''"

section \<open>src/utils/translations.ts\<close>

text \<open>
  \<^verbatim>\<open>export const translations = { en: { home: 'Home', ... }, ar: { home: ..., ... } }\<close>:
  one object of key/string pairs for each language, in the order of the source. The
  constant is named \<open>translations_table\<close> here.
\<close>

definition translations_en :: "(string \<times> string) list" where
  "translations_en =
    [(''home'', ''Home''),
     (''portfolio'', ''Portfolio''),
     (''about'', ''About''),
     (''services'', ''Services''),
     (''contact'', ''Contact''),
     (''title'', ''Eng.EmadAlddine''),
     (''subtitle'', ''Senior Graphic Designer''),
     (''heroTitle'', ''Creative Design Solutions''),
     (''heroSubtitle'',
         ''Transforming ideas into impactful visual experiences with 9+ years of expertise''),
     (''seeMyWork'', ''See My Work''),
     (''hireMe'', ''Hire Me''),
     (''aboutTitle'', ''About Me''),
     (''aboutDescription'',
         ''Creative and experienced Branding and Logo Designer with over 9 years of expertise in developing impactful visual identities. Skilled in managing design teams, fostering collaboration, and ensuring the successful execution of creative projects.''),
     (''experience'', ''Experience''),
     (''education'', ''Education''),
     (''skills'', ''Skills''),
     (''servicesTitle'', ''My Services''),
     (''servicesSubtitle'', ''Professional design solutions tailored to your needs''),
     (''logoDesign'', ''Logo Design''),
     (''logoDesc'', ''Creating memorable and impactful brand identities''),
     (''branding'', ''Branding''),
     (''brandingDesc'', ''Complete brand identity development and guidelines''),
     (''printDesign'', ''Print Design''),
     (''printDesc'', ''Professional printing materials and marketing collateral''),
     (''uiuxDesign'', ''UI/UX Design''),
     (''uiuxDesc'', ''User-centered interface and experience design''),
     (''portfolioTitle'', ''My Portfolio''),
     (''portfolioSubtitle'',
         ''Showcasing creative excellence across various design disciplines''),
     (''allProjects'', ''All Projects''),
     (''logos'', ''Logos''),
     (''posters'', ''Posters''),
     (''viewProject'', ''View Project''),
     (''testimonialsTitle'', ''What Our Customers Say''),
     (''contactTitle'', ''Get In Touch''),
     (''contactSubtitle'', ''Let's discuss your next project''),
     (''name'', ''Name''),
     (''email'', ''Email''),
     (''message'', ''Message''),
     (''sendMessage'', ''Send Message''),
     (''followMe'', ''Follow Me''),
     (''allRightsReserved'', ''All rights reserved''),
     (''english'', ''English''),
     (''arabic'', [CHR 0xD8, CHR 0xA7, CHR 0xD9, CHR 0x84, CHR 0xD8, CHR 0xB9, CHR 0xD8,
         CHR 0xB1, CHR 0xD8, CHR 0xA8, CHR 0xD9, CHR 0x8A, CHR 0xD8, CHR 0xA9])]"

definition translations_ar :: "(string \<times> string) list" where
  "translations_ar =
    [(''home'', [CHR 0xD8, CHR 0xA7, CHR 0xD9, CHR 0x84, CHR 0xD8, CHR 0xB1, CHR 0xD8,
        CHR 0xA6, CHR 0xD9, CHR 0x8A, CHR 0xD8, CHR 0xB3, CHR 0xD9, CHR 0x8A, CHR 0xD8,
        CHR 0xA9]),
     (''portfolio'', [CHR 0xD8, CHR 0xA7, CHR 0xD9, CHR 0x84, CHR 0xD9, CHR 0x85, CHR 0xD8,
         CHR 0xB9, CHR 0xD8, CHR 0xB1, CHR 0xD8, CHR 0xB6]),
     (''about'', [CHR 0xD9, CHR 0x86, CHR 0xD8, CHR 0xA8, CHR 0xD8, CHR 0xB0, CHR 0xD8,
         CHR 0xA9, CHR 0x20, CHR 0xD8, CHR 0xB9, CHR 0xD9, CHR 0x86, CHR 0xD9, CHR 0x8A]),
     (''services'', [CHR 0xD8, CHR 0xA7, CHR 0xD9, CHR 0x84, CHR 0xD8, CHR 0xAE, CHR 0xD8,
         CHR 0xAF, CHR 0xD9, CHR 0x85, CHR 0xD8, CHR 0xA7, CHR 0xD8, CHR 0xAA]),
     (''contact'', [CHR 0xD8, CHR 0xA7, CHR 0xD9, CHR 0x84, CHR 0xD8, CHR 0xAA, CHR 0xD9,
         CHR 0x88, CHR 0xD8, CHR 0xA7, CHR 0xD8, CHR 0xB5, CHR 0xD9, CHR 0x84]),
     (''title'', [CHR 0xD9, CHR 0x85, CHR 0x2E, CHR 0xD8, CHR 0xB9, CHR 0xD9, CHR 0x85,
         CHR 0xD8, CHR 0xA7, CHR 0xD8, CHR 0xAF, CHR 0x20, CHR 0xD8, CHR 0xA7, CHR 0xD9,
         CHR 0x84, CHR 0xD8, CHR 0xAF, CHR 0xD9, CHR 0x8A, CHR 0xD9, CHR 0x86]),
     (''subtitle'', [CHR 0xD9, CHR 0x85, CHR 0xD8, CHR 0xB5, CHR 0xD9, CHR 0x85, CHR 0xD9,
         CHR 0x85, CHR 0x20, CHR 0xD8, CHR 0xAC, CHR 0xD8, CHR 0xB1, CHR 0xD8, CHR 0xA7,
         CHR 0xD9, CHR 0x81, CHR 0xD9, CHR 0x8A, CHR 0xD9, CHR 0x83, CHR 0x20, CHR 0xD8,
         CHR 0xA3, CHR 0xD9, CHR 0x88, CHR 0xD9, CHR 0x84]),
     (''heroTitle'', [CHR 0xD8, CHR 0xAD, CHR 0xD9, CHR 0x84, CHR 0xD9, CHR 0x88, CHR 0xD9,
         CHR 0x84, CHR 0x20, CHR 0xD8, CHR 0xAA, CHR 0xD8, CHR 0xB5, CHR 0xD9, CHR 0x85,
         CHR 0xD9, CHR 0x8A, CHR 0xD9, CHR 0x85, CHR 0x20, CHR 0xD8, CHR 0xA5, CHR 0xD8,
         CHR 0xA8, CHR 0xD8, CHR 0xAF, CHR 0xD8, CHR 0xA7, CHR 0xD8, CHR 0xB9, CHR 0xD9,
         CHR 0x8A, CHR 0xD8, CHR 0xA9]),
     (''heroSubtitle'', [CHR 0xD8, CHR 0xAA, CHR 0xD8, CHR 0xAD, CHR 0xD9, CHR 0x88,
         CHR 0xD9, CHR 0x8A, CHR 0xD9, CHR 0x84, CHR 0x20, CHR 0xD8, CHR 0xA7, CHR 0xD9,
         CHR 0x84, CHR 0xD8, CHR 0xA3, CHR 0xD9, CHR 0x81, CHR 0xD9, CHR 0x83, CHR 0xD8,
         CHR 0xA7, CHR 0xD8, CHR 0xB1, CHR 0x20, CHR 0xD8, CHR 0xA5, CHR 0xD9, CHR 0x84,
         CHR 0xD9, CHR 0x89, CHR 0x20, CHR 0xD8, CHR 0xAA, CHR 0xD8, CHR 0xAC, CHR 0xD8,
         CHR 0xA7, CHR 0xD8, CHR 0xB1, CHR 0xD8, CHR 0xA8, CHR 0x20, CHR 0xD8, CHR 0xA8,
         CHR 0xD8, CHR 0xB5, CHR 0xD8, CHR 0xB1, CHR 0xD9, CHR 0x8A, CHR 0xD8, CHR 0xA9,
         CHR 0x20, CHR 0xD9, CHR 0x85, CHR 0xD8, CHR 0xA4, CHR 0xD8, CHR 0xAB, CHR 0xD8,
         CHR 0xB1, CHR 0xD8, CHR 0xA9, CHR 0x20, CHR 0xD8, CHR 0xA8, CHR 0xD8, CHR 0xAE,
         CHR 0xD8, CHR 0xA8, CHR 0xD8, CHR 0xB1, CHR 0xD8, CHR 0xA9, CHR 0x20, CHR 0xD8,
         CHR 0xAA, CHR 0xD8, CHR 0xB2, CHR 0xD9, CHR 0x8A, CHR 0xD8, CHR 0xAF, CHR 0x20,
         CHR 0xD8, CHR 0xB9, CHR 0xD9, CHR 0x86, CHR 0x20, CHR 0x39, CHR 0x20, CHR 0xD8,
         CHR 0xB3, CHR 0xD9, CHR 0x86, CHR 0xD9, CHR 0x88, CHR 0xD8, CHR 0xA7, CHR 0xD8,
         CHR 0xAA]),
     (''seeMyWork'', [CHR 0xD8, CHR 0xB4, CHR 0xD8, CHR 0xA7, CHR 0xD9, CHR 0x87, CHR 0xD8,
         CHR 0xAF, CHR 0x20, CHR 0xD8, CHR 0xA3, CHR 0xD8, CHR 0xB9, CHR 0xD9, CHR 0x85,
         CHR 0xD8, CHR 0xA7, CHR 0xD9, CHR 0x84, CHR 0xD9, CHR 0x8A]),
     (''hireMe'', [CHR 0xD9, CHR 0x88, CHR 0xD8, CHR 0xB8, CHR 0xD9, CHR 0x81, CHR 0xD9,
         CHR 0x86, CHR 0xD9, CHR 0x8A]),
     (''aboutTitle'', [CHR 0xD9, CHR 0x86, CHR 0xD8, CHR 0xA8, CHR 0xD8, CHR 0xB0, CHR 0xD8,
         CHR 0xA9, CHR 0x20, CHR 0xD8, CHR 0xB9, CHR 0xD9, CHR 0x86, CHR 0xD9, CHR 0x8A]),
     (''aboutDescription'', [CHR 0xD9, CHR 0x85, CHR 0xD8, CHR 0xB5, CHR 0xD9, CHR 0x85,
         CHR 0xD9, CHR 0x85, CHR 0x20, CHR 0xD8, CHR 0xB9, CHR 0xD9, CHR 0x84, CHR 0xD8,
         CHR 0xA7, CHR 0xD9, CHR 0x85, CHR 0xD8, CHR 0xA7, CHR 0xD8, CHR 0xAA, CHR 0x20,
         CHR 0xD8, CHR 0xAA, CHR 0xD8, CHR 0xAC, CHR 0xD8, CHR 0xA7, CHR 0xD8, CHR 0xB1,
         CHR 0xD9, CHR 0x8A, CHR 0xD8, CHR 0xA9, CHR 0x20, CHR 0xD9, CHR 0x88, CHR 0xD8,
         CHR 0xB4, CHR 0xD8, CHR 0xB9, CHR 0xD8, CHR 0xA7, CHR 0xD8, CHR 0xB1, CHR 0xD8,
         CHR 0xA7, CHR 0xD8, CHR 0xAA, CHR 0x20, CHR 0xD9, CHR 0x85, CHR 0xD8, CHR 0xA8,
         CHR 0xD8, CHR 0xAF, CHR 0xD8, CHR 0xB9, CHR 0x20, CHR 0xD9, CHR 0x88, CHR 0xD8,
         CHR 0xB0, CHR 0xD9, CHR 0x88, CHR 0x20, CHR 0xD8, CHR 0xAE, CHR 0xD8, CHR 0xA8,
         CHR 0xD8, CHR 0xB1, CHR 0xD8, CHR 0xA9, CHR 0x20, CHR 0xD8, CHR 0xAA, CHR 0xD8,
         CHR 0xB2, CHR 0xD9, CHR 0x8A, CHR 0xD8, CHR 0xAF, CHR 0x20, CHR 0xD8, CHR 0xB9,
         CHR 0xD9, CHR 0x86, CHR 0x20, CHR 0x39, CHR 0x20, CHR 0xD8, CHR 0xB3, CHR 0xD9,
         CHR 0x86, CHR 0xD9, CHR 0x88, CHR 0xD8, CHR 0xA7, CHR 0xD8, CHR 0xAA, CHR 0x20,
         CHR 0xD9, CHR 0x81, CHR 0xD9, CHR 0x8A, CHR 0x20, CHR 0xD8, CHR 0xAA, CHR 0xD8,
         CHR 0xB7, CHR 0xD9, CHR 0x88, CHR 0xD9, CHR 0x8A, CHR 0xD8, CHR 0xB1, CHR 0x20,
         CHR 0xD8, CHR 0xA7, CHR 0xD9, CHR 0x84, CHR 0xD9, CHR 0x87, CHR 0xD9, CHR 0x88,
         CHR 0xD9, CHR 0x8A, CHR 0xD8, CHR 0xA7, CHR 0xD8, CHR 0xAA, CHR 0x20, CHR 0xD8,
         CHR 0xA7, CHR 0xD9, CHR 0x84, CHR 0xD8, CHR 0xA8, CHR 0xD8, CHR 0xB5, CHR 0xD8,
         CHR 0xB1, CHR 0xD9, CHR 0x8A, CHR 0xD8, CHR 0xA9, CHR 0x20, CHR 0xD8, CHR 0xA7,
         CHR 0xD9, CHR 0x84, CHR 0xD9, CHR 0x85, CHR 0xD8, CHR 0xA4, CHR 0xD8, CHR 0xAB,
         CHR 0xD8, CHR 0xB1, CHR 0xD8, CHR 0xA9, CHR 0x2E, CHR 0x20, CHR 0xD9, CHR 0x85,
         CHR 0xD8, CHR 0xA7, CHR 0xD9, CHR 0x87, CHR 0xD8, CHR 0xB1, CHR 0x20, CHR 0xD9,
         CHR 0x81, CHR 0xD9, CHR 0x8A, CHR 0x20, CHR 0xD8, CHR 0xA5, CHR 0xD8, CHR 0xAF,
         CHR 0xD8, CHR 0xA7, CHR 0xD8, CHR 0xB1, CHR 0xD8, CHR 0xA9, CHR 0x20, CHR 0xD9,
         CHR 0x81, CHR 0xD8, CHR 0xB1, CHR 0xD9, CHR 0x82, CHR 0x20, CHR 0xD8, CHR 0xA7,
         CHR 0xD9, CHR 0x84, CHR 0xD8, CHR 0xAA, CHR 0xD8, CHR 0xB5, CHR 0xD9, CHR 0x85,
         CHR 0xD9, CHR 0x8A, CHR 0xD9, CHR 0x85, CHR 0x20, CHR 0xD9, CHR 0x88, CHR 0xD8,
         CHR 0xAA, CHR 0xD8, CHR 0xB9, CHR 0xD8, CHR 0xB2, CHR 0xD9, CHR 0x8A, CHR 0xD8,
         CHR 0xB2, CHR 0x20, CHR 0xD8, CHR 0xA7, CHR 0xD9, CHR 0x84, CHR 0xD8, CHR 0xAA,
         CHR 0xD8, CHR 0xB9, CHR 0xD8, CHR 0xA7, CHR 0xD9, CHR 0x88, CHR 0xD9, CHR 0x86,
         CHR 0x20, CHR 0xD9, CHR 0x88, CHR 0xD8, CHR 0xB6, CHR 0xD9, CHR 0x85, CHR 0xD8,
         CHR 0xA7, CHR 0xD9, CHR 0x86, CHR 0x20, CHR 0xD8, CHR 0xA7, CHR 0xD9, CHR 0x84,
         CHR 0xD8, CHR 0xAA, CHR 0xD9, CHR 0x86, CHR 0xD9, CHR 0x81, CHR 0xD9, CHR 0x8A,
         CHR 0xD8, CHR 0xB0, CHR 0x20, CHR 0xD8, CHR 0xA7, CHR 0xD9, CHR 0x84, CHR 0xD9,
         CHR 0x86, CHR 0xD8, CHR 0xA7, CHR 0xD8, CHR 0xAC, CHR 0xD8, CHR 0xAD, CHR 0x20,
         CHR 0xD9, CHR 0x84, CHR 0xD9, CHR 0x84, CHR 0xD9, CHR 0x85, CHR 0xD8, CHR 0xB4,
         CHR 0xD8, CHR 0xA7, CHR 0xD8, CHR 0xB1, CHR 0xD9, CHR 0x8A, CHR 0xD8, CHR 0xB9,
         CHR 0x20, CHR 0xD8, CHR 0xA7, CHR 0xD9, CHR 0x84, CHR 0xD8, CHR 0xA5, CHR 0xD8,
         CHR 0xA8, CHR 0xD8, CHR 0xAF, CHR 0xD8, CHR 0xA7, CHR 0xD8, CHR 0xB9, CHR 0xD9,
         CHR 0x8A, CHR 0xD8, CHR 0xA9, CHR 0x2E]),
     (''experience'', [CHR 0xD8, CHR 0xA7, CHR 0xD9, CHR 0x84, CHR 0xD8, CHR 0xAE, CHR 0xD8,
         CHR 0xA8, CHR 0xD8, CHR 0xB1, CHR 0xD8, CHR 0xA9]),
     (''education'', [CHR 0xD8, CHR 0xA7, CHR 0xD9, CHR 0x84, CHR 0xD8, CHR 0xAA, CHR 0xD8,
         CHR 0xB9, CHR 0xD9, CHR 0x84, CHR 0xD9, CHR 0x8A, CHR 0xD9, CHR 0x85]),
     (''skills'', [CHR 0xD8, CHR 0xA7, CHR 0xD9, CHR 0x84, CHR 0xD9, CHR 0x85, CHR 0xD9,
         CHR 0x87, CHR 0xD8, CHR 0xA7, CHR 0xD8, CHR 0xB1, CHR 0xD8, CHR 0xA7, CHR 0xD8,
         CHR 0xAA]),
     (''servicesTitle'', [CHR 0xD8, CHR 0xAE, CHR 0xD8, CHR 0xAF, CHR 0xD9, CHR 0x85,
         CHR 0xD8, CHR 0xA7, CHR 0xD8, CHR 0xAA, CHR 0xD9, CHR 0x8A]),
     (''servicesSubtitle'', [CHR 0xD8, CHR 0xAD, CHR 0xD9, CHR 0x84, CHR 0xD9, CHR 0x88,
         CHR 0xD9, CHR 0x84, CHR 0x20, CHR 0xD8, CHR 0xAA, CHR 0xD8, CHR 0xB5, CHR 0xD9,
         CHR 0x85, CHR 0xD9, CHR 0x8A, CHR 0xD9, CHR 0x85, CHR 0x20, CHR 0xD8, CHR 0xA7,
         CHR 0xD8, CHR 0xAD, CHR 0xD8, CHR 0xAA, CHR 0xD8, CHR 0xB1, CHR 0xD8, CHR 0xA7,
         CHR 0xD9, CHR 0x81, CHR 0xD9, CHR 0x8A, CHR 0xD8, CHR 0xA9, CHR 0x20, CHR 0xD9,
         CHR 0x85, CHR 0xD8, CHR 0xB5, CHR 0xD9, CHR 0x85, CHR 0xD9, CHR 0x85, CHR 0xD8,
         CHR 0xA9, CHR 0x20, CHR 0xD8, CHR 0xAE, CHR 0xD8, CHR 0xB5, CHR 0xD9, CHR 0x8A,
         CHR 0xD8, CHR 0xB5, CHR 0xD8, CHR 0xA7, CHR 0xD9, CHR 0x8B, CHR 0x20, CHR 0xD9,
         CHR 0x84, CHR 0xD8, CHR 0xA7, CHR 0xD8, CHR 0xAD, CHR 0xD8, CHR 0xAA, CHR 0xD9,
         CHR 0x8A, CHR 0xD8, CHR 0xA7, CHR 0xD8, CHR 0xAC, CHR 0xD8, CHR 0xA7, CHR 0xD8,
         CHR 0xAA, CHR 0xD9, CHR 0x83]),
     (''logoDesign'', [CHR 0xD8, CHR 0xAA, CHR 0xD8, CHR 0xB5, CHR 0xD9, CHR 0x85, CHR 0xD9,
         CHR 0x8A, CHR 0xD9, CHR 0x85, CHR 0x20, CHR 0xD8, CHR 0xA7, CHR 0xD9, CHR 0x84,
         CHR 0xD8, CHR 0xB4, CHR 0xD8, CHR 0xB9, CHR 0xD8, CHR 0xA7, CHR 0xD8, CHR 0xB1,
         CHR 0xD8, CHR 0xA7, CHR 0xD8, CHR 0xAA]),
     (''logoDesc'', [CHR 0xD8, CHR 0xA5, CHR 0xD9, CHR 0x86, CHR 0xD8, CHR 0xB4, CHR 0xD8,
         CHR 0xA7, CHR 0xD8, CHR 0xA1, CHR 0x20, CHR 0xD9, CHR 0x87, CHR 0xD9, CHR 0x88,
         CHR 0xD9, CHR 0x8A, CHR 0xD8, CHR 0xA7, CHR 0xD8, CHR 0xAA, CHR 0x20, CHR 0xD8,
         CHR 0xAA, CHR 0xD8, CHR 0xAC, CHR 0xD8, CHR 0xA7, CHR 0xD8, CHR 0xB1, CHR 0xD9,
         CHR 0x8A, CHR 0xD8, CHR 0xA9, CHR 0x20, CHR 0xD9, CHR 0x84, CHR 0xD8, CHR 0xA7,
         CHR 0x20, CHR 0xD8, CHR 0xAA, CHR 0xD9, CHR 0x8F, CHR 0xD9, CHR 0x86, CHR 0xD8,
         CHR 0xB3, CHR 0xD9, CHR 0x89, CHR 0x20, CHR 0xD9, CHR 0x88, CHR 0xD9, CHR 0x85,
         CHR 0xD8, CHR 0xA4, CHR 0xD8, CHR 0xAB, CHR 0xD8, CHR 0xB1, CHR 0xD8, CHR 0xA9]),
     (''branding'', [CHR 0xD8, CHR 0xA7, CHR 0xD9, CHR 0x84, CHR 0xD8, CHR 0xB9, CHR 0xD9,
         CHR 0x84, CHR 0xD8, CHR 0xA7, CHR 0xD9, CHR 0x85, CHR 0xD8, CHR 0xA9, CHR 0x20,
         CHR 0xD8, CHR 0xA7, CHR 0xD9, CHR 0x84, CHR 0xD8, CHR 0xAA, CHR 0xD8, CHR 0xAC,
         CHR 0xD8, CHR 0xA7, CHR 0xD8, CHR 0xB1, CHR 0xD9, CHR 0x8A, CHR 0xD8, CHR 0xA9]),
     (''brandingDesc'', [CHR 0xD8, CHR 0xAA, CHR 0xD8, CHR 0xB7, CHR 0xD9, CHR 0x88,
         CHR 0xD9, CHR 0x8A, CHR 0xD8, CHR 0xB1, CHR 0x20, CHR 0xD8, CHR 0xA7, CHR 0xD9,
         CHR 0x84, CHR 0xD9, CHR 0x87, CHR 0xD9, CHR 0x88, CHR 0xD9, CHR 0x8A, CHR 0xD8,
         CHR 0xA9, CHR 0x20, CHR 0xD8, CHR 0xA7, CHR 0xD9, CHR 0x84, CHR 0xD8, CHR 0xAA,
         CHR 0xD8, CHR 0xAC, CHR 0xD8, CHR 0xA7, CHR 0xD8, CHR 0xB1, CHR 0xD9, CHR 0x8A,
         CHR 0xD8, CHR 0xA9, CHR 0x20, CHR 0xD8, CHR 0xA7, CHR 0xD9, CHR 0x84, CHR 0xD9,
         CHR 0x83, CHR 0xD8, CHR 0xA7, CHR 0xD9, CHR 0x85, CHR 0xD9, CHR 0x84, CHR 0xD8,
         CHR 0xA9, CHR 0x20, CHR 0xD9, CHR 0x88, CHR 0xD8, CHR 0xA7, CHR 0xD9, CHR 0x84,
         CHR 0xD8, CHR 0xA5, CHR 0xD8, CHR 0xB1, CHR 0xD8, CHR 0xB4, CHR 0xD8, CHR 0xA7,
         CHR 0xD8, CHR 0xAF, CHR 0xD8, CHR 0xA7, CHR 0xD8, CHR 0xAA]),
     (''printDesign'', [CHR 0xD8, CHR 0xA7, CHR 0xD9, CHR 0x84, CHR 0xD8, CHR 0xAA,
         CHR 0xD8, CHR 0xB5, CHR 0xD9, CHR 0x85, CHR 0xD9, CHR 0x8A, CHR 0xD9, CHR 0x85,
         CHR 0x20, CHR 0xD8, CHR 0xA7, CHR 0xD9, CHR 0x84, CHR 0xD8, CHR 0xB7, CHR 0xD8,
         CHR 0xA8, CHR 0xD8, CHR 0xA7, CHR 0xD8, CHR 0xB9, CHR 0xD9, CHR 0x8A]),
     (''printDesc'', [CHR 0xD9, CHR 0x85, CHR 0xD9, CHR 0x88, CHR 0xD8, CHR 0xA7, CHR 0xD8,
         CHR 0xAF, CHR 0x20, CHR 0xD8, CHR 0xB7, CHR 0xD8, CHR 0xA8, CHR 0xD8, CHR 0xA7,
         CHR 0xD8, CHR 0xB9, CHR 0xD8, CHR 0xA9, CHR 0x20, CHR 0xD8, CHR 0xA7, CHR 0xD8,
         CHR 0xAD, CHR 0xD8, CHR 0xAA, CHR 0xD8, CHR 0xB1, CHR 0xD8, CHR 0xA7, CHR 0xD9,
         CHR 0x81, CHR 0xD9, CHR 0x8A, CHR 0xD8, CHR 0xA9, CHR 0x20, CHR 0xD9, CHR 0x88,
         CHR 0xD9, CHR 0x85, CHR 0xD9, CHR 0x88, CHR 0xD8, CHR 0xA7, CHR 0xD8, CHR 0xAF,
         CHR 0x20, CHR 0xD8, CHR 0xAA, CHR 0xD8, CHR 0xB3, CHR 0xD9, CHR 0x88, CHR 0xD9,
         CHR 0x8A, CHR 0xD9, CHR 0x82, CHR 0xD9, CHR 0x8A, CHR 0xD8, CHR 0xA9]),
     (''uiuxDesign'', [CHR 0xD8, CHR 0xAA, CHR 0xD8, CHR 0xB5, CHR 0xD9, CHR 0x85, CHR 0xD9,
         CHR 0x8A, CHR 0xD9, CHR 0x85, CHR 0x20, CHR 0xD9, CHR 0x88, CHR 0xD8, CHR 0xA7,
         CHR 0xD8, CHR 0xAC, CHR 0xD9, CHR 0x87, CHR 0xD8, CHR 0xA7, CHR 0xD8, CHR 0xAA,
         CHR 0x20, CHR 0xD8, CHR 0xA7, CHR 0xD9, CHR 0x84, CHR 0xD9, CHR 0x85, CHR 0xD8,
         CHR 0xB3, CHR 0xD8, CHR 0xAA, CHR 0xD8, CHR 0xAE, CHR 0xD8, CHR 0xAF, CHR 0xD9,
         CHR 0x85]),
     (''uiuxDesc'', [CHR 0xD8, CHR 0xAA, CHR 0xD8, CHR 0xB5, CHR 0xD9, CHR 0x85, CHR 0xD9,
         CHR 0x8A, CHR 0xD9, CHR 0x85, CHR 0x20, CHR 0xD9, CHR 0x88, CHR 0xD8, CHR 0xA7,
         CHR 0xD8, CHR 0xAC, CHR 0xD9, CHR 0x87, CHR 0xD8, CHR 0xA7, CHR 0xD8, CHR 0xAA,
         CHR 0x20, CHR 0xD9, CHR 0x88, CHR 0xD8, CHR 0xAA, CHR 0xD8, CHR 0xAC, CHR 0xD8,
         CHR 0xA7, CHR 0xD8, CHR 0xB1, CHR 0xD8, CHR 0xA8, CHR 0x20, CHR 0xD9, CHR 0x85,
         CHR 0xD8, CHR 0xB3, CHR 0xD8, CHR 0xAA, CHR 0xD8, CHR 0xAE, CHR 0xD8, CHR 0xAF,
         CHR 0xD9, CHR 0x85, CHR 0x20, CHR 0xD9, CHR 0x85, CHR 0xD8, CHR 0xAD, CHR 0xD9,
         CHR 0x88, CHR 0xD8, CHR 0xB1, CHR 0xD9, CHR 0x8A, CHR 0xD8, CHR 0xA9]),
     (''portfolioTitle'', [CHR 0xD9, CHR 0x85, CHR 0xD8, CHR 0xB9, CHR 0xD8, CHR 0xB1,
         CHR 0xD8, CHR 0xB6, CHR 0x20, CHR 0xD8, CHR 0xA3, CHR 0xD8, CHR 0xB9, CHR 0xD9,
         CHR 0x85, CHR 0xD8, CHR 0xA7, CHR 0xD9, CHR 0x84, CHR 0xD9, CHR 0x8A]),
     (''portfolioSubtitle'', [CHR 0xD8, CHR 0xB9, CHR 0xD8, CHR 0xB1, CHR 0xD8, CHR 0xB6,
         CHR 0x20, CHR 0xD8, CHR 0xA7, CHR 0xD9, CHR 0x84, CHR 0xD8, CHR 0xAA, CHR 0xD9,
         CHR 0x85, CHR 0xD9, CHR 0x8A, CHR 0xD8, CHR 0xB2, CHR 0x20, CHR 0xD8, CHR 0xA7,
         CHR 0xD9, CHR 0x84, CHR 0xD8, CHR 0xA5, CHR 0xD8, CHR 0xA8, CHR 0xD8, CHR 0xAF,
         CHR 0xD8, CHR 0xA7, CHR 0xD8, CHR 0xB9, CHR 0xD9, CHR 0x8A, CHR 0x20, CHR 0xD8,
         CHR 0xB9, CHR 0xD8, CHR 0xA8, CHR 0xD8, CHR 0xB1, CHR 0x20, CHR 0xD9, CHR 0x85,
         CHR 0xD8, CHR 0xAE, CHR 0xD8, CHR 0xAA, CHR 0xD9, CHR 0x84, CHR 0xD9, CHR 0x81,
         CHR 0x20, CHR 0xD8, CHR 0xAA, CHR 0xD8, CHR 0xAE, CHR 0xD8, CHR 0xB5, CHR 0xD8,
         CHR 0xB5, CHR 0xD8, CHR 0xA7, CHR 0xD8, CHR 0xAA, CHR 0x20, CHR 0xD8, CHR 0xA7,
         CHR 0xD9, CHR 0x84, CHR 0xD8, CHR 0xAA, CHR 0xD8, CHR 0xB5, CHR 0xD9, CHR 0x85,
         CHR 0xD9, CHR 0x8A, CHR 0xD9, CHR 0x85]),
     (''allProjects'', [CHR 0xD8, CHR 0xAC, CHR 0xD9, CHR 0x85, CHR 0xD9, CHR 0x8A,
         CHR 0xD8, CHR 0xB9, CHR 0x20, CHR 0xD8, CHR 0xA7, CHR 0xD9, CHR 0x84, CHR 0xD9,
         CHR 0x85, CHR 0xD8, CHR 0xB4, CHR 0xD8, CHR 0xA7, CHR 0xD8, CHR 0xB1, CHR 0xD9,
         CHR 0x8A, CHR 0xD8, CHR 0xB9]),
     (''logos'', [CHR 0xD8, CHR 0xA7, CHR 0xD9, CHR 0x84, CHR 0xD8, CHR 0xB4, CHR 0xD8,
         CHR 0xB9, CHR 0xD8, CHR 0xA7, CHR 0xD8, CHR 0xB1, CHR 0xD8, CHR 0xA7, CHR 0xD8,
         CHR 0xAA]),
     (''posters'', [CHR 0xD8, CHR 0xA7, CHR 0xD9, CHR 0x84, CHR 0xD9, CHR 0x85, CHR 0xD9,
         CHR 0x84, CHR 0xD8, CHR 0xB5, CHR 0xD9, CHR 0x82, CHR 0xD8, CHR 0xA7, CHR 0xD8,
         CHR 0xAA]),
     (''viewProject'', [CHR 0xD8, CHR 0xB9, CHR 0xD8, CHR 0xB1, CHR 0xD8, CHR 0xB6,
         CHR 0x20, CHR 0xD8, CHR 0xA7, CHR 0xD9, CHR 0x84, CHR 0xD9, CHR 0x85, CHR 0xD8,
         CHR 0xB4, CHR 0xD8, CHR 0xB1, CHR 0xD9, CHR 0x88, CHR 0xD8, CHR 0xB9]),
     (''testimonialsTitle'', [CHR 0xD9, CHR 0x85, CHR 0xD8, CHR 0xA7, CHR 0xD8, CHR 0xB0,
         CHR 0xD8, CHR 0xA7, CHR 0x20, CHR 0xD9, CHR 0x8A, CHR 0xD9, CHR 0x82, CHR 0xD9,
         CHR 0x88, CHR 0xD9, CHR 0x84, CHR 0x20, CHR 0xD8, CHR 0xB9, CHR 0xD9, CHR 0x85,
         CHR 0xD9, CHR 0x84, CHR 0xD8, CHR 0xA7, CHR 0xD8, CHR 0xA4, CHR 0xD9, CHR 0x86,
         CHR 0xD8, CHR 0xA7]),
     (''contactTitle'', [CHR 0xD8, CHR 0xAA, CHR 0xD9, CHR 0x88, CHR 0xD8, CHR 0xA7,
         CHR 0xD8, CHR 0xB5, CHR 0xD9, CHR 0x84, CHR 0x20, CHR 0xD9, CHR 0x85, CHR 0xD8,
         CHR 0xB9, CHR 0xD9, CHR 0x8A]),
     (''contactSubtitle'', [CHR 0xD9, CHR 0x84, CHR 0xD9, CHR 0x86, CHR 0xD9, CHR 0x86,
         CHR 0xD8, CHR 0xA7, CHR 0xD9, CHR 0x82, CHR 0xD8, CHR 0xB4, CHR 0x20, CHR 0xD9,
         CHR 0x85, CHR 0xD8, CHR 0xB4, CHR 0xD8, CHR 0xB1, CHR 0xD9, CHR 0x88, CHR 0xD8,
         CHR 0xB9, CHR 0xD9, CHR 0x83, CHR 0x20, CHR 0xD8, CHR 0xA7, CHR 0xD9, CHR 0x84,
         CHR 0xD9, CHR 0x82, CHR 0xD8, CHR 0xA7, CHR 0xD8, CHR 0xAF, CHR 0xD9, CHR 0x85]),
     (''name'', [CHR 0xD8, CHR 0xA7, CHR 0xD9, CHR 0x84, CHR 0xD8, CHR 0xA7, CHR 0xD8,
         CHR 0xB3, CHR 0xD9, CHR 0x85]),
     (''email'', [CHR 0xD8, CHR 0xA7, CHR 0xD9, CHR 0x84, CHR 0xD8, CHR 0xA8, CHR 0xD8,
         CHR 0xB1, CHR 0xD9, CHR 0x8A, CHR 0xD8, CHR 0xAF, CHR 0x20, CHR 0xD8, CHR 0xA7,
         CHR 0xD9, CHR 0x84, CHR 0xD8, CHR 0xA5, CHR 0xD9, CHR 0x84, CHR 0xD9, CHR 0x83,
         CHR 0xD8, CHR 0xAA, CHR 0xD8, CHR 0xB1, CHR 0xD9, CHR 0x88, CHR 0xD9, CHR 0x86,
         CHR 0xD9, CHR 0x8A]),
     (''message'', [CHR 0xD8, CHR 0xA7, CHR 0xD9, CHR 0x84, CHR 0xD8, CHR 0xB1, CHR 0xD8,
         CHR 0xB3, CHR 0xD8, CHR 0xA7, CHR 0xD9, CHR 0x84, CHR 0xD8, CHR 0xA9]),
     (''sendMessage'', [CHR 0xD8, CHR 0xA5, CHR 0xD8, CHR 0xB1, CHR 0xD8, CHR 0xB3,
         CHR 0xD8, CHR 0xA7, CHR 0xD9, CHR 0x84, CHR 0x20, CHR 0xD8, CHR 0xA7, CHR 0xD9,
         CHR 0x84, CHR 0xD8, CHR 0xB1, CHR 0xD8, CHR 0xB3, CHR 0xD8, CHR 0xA7, CHR 0xD9,
         CHR 0x84, CHR 0xD8, CHR 0xA9]),
     (''followMe'', [CHR 0xD8, CHR 0xAA, CHR 0xD8, CHR 0xA7, CHR 0xD8, CHR 0xA8, CHR 0xD8,
         CHR 0xB9, CHR 0xD9, CHR 0x86, CHR 0xD9, CHR 0x8A]),
     (''allRightsReserved'', [CHR 0xD8, CHR 0xAC, CHR 0xD9, CHR 0x85, CHR 0xD9, CHR 0x8A,
         CHR 0xD8, CHR 0xB9, CHR 0x20, CHR 0xD8, CHR 0xA7, CHR 0xD9, CHR 0x84, CHR 0xD8,
         CHR 0xAD, CHR 0xD9, CHR 0x82, CHR 0xD9, CHR 0x88, CHR 0xD9, CHR 0x82, CHR 0x20,
         CHR 0xD9, CHR 0x85, CHR 0xD8, CHR 0xAD, CHR 0xD9, CHR 0x81, CHR 0xD9, CHR 0x88,
         CHR 0xD8, CHR 0xB8, CHR 0xD8, CHR 0xA9]),
     (''english'', ''English''),
     (''arabic'', [CHR 0xD8, CHR 0xA7, CHR 0xD9, CHR 0x84, CHR 0xD8, CHR 0xB9, CHR 0xD8,
         CHR 0xB1, CHR 0xD8, CHR 0xA8, CHR 0xD9, CHR 0x8A, CHR 0xD8, CHR 0xA9])]"

text \<open>
  An object literal read by key: \<^verbatim>\<open>translations[language][key]\<close> is the string stored
  under the key, or \<^verbatim>\<open>undefined\<close> (\<^const>\<open>None\<close>) when the object has no such key.
\<close>

type_synonym table = "language \<Rightarrow> string \<rightharpoonup> string"

definition translations_table :: table where
  "translations_table language =
     (case language of En \<Rightarrow> map_of translations_en | Ar \<Rightarrow> map_of translations_ar)"

text \<open>
  \<^verbatim>\<open>a || b\<close> on values that are strings or \<^verbatim>\<open>undefined\<close>: the left operand when
  it is truthy, that is a non-empty string; the right operand otherwise.
\<close>

definition logical_or :: "string option \<Rightarrow> string option \<Rightarrow> string option" where
  "logical_or a b = (case a of Some s \<Rightarrow> (if s = '''' then b else Some s) | None \<Rightarrow> b)"

text \<open>
  \<^verbatim>\<open>
  export const useTranslation = (language: 'en' | 'ar') => {
    return {
      t: (key: keyof typeof translations.en) => translations[language][key] || translations.en[key]
    };
  };
  \<close>
  \<open>t_of\<close> is the body of \<^verbatim>\<open>t\<close> with the table it reads made explicit;
  \<open>useTranslation language\<close> is the function \<^verbatim>\<open>t\<close> the hook returns.
\<close>

definition t_of :: "table \<Rightarrow> language \<Rightarrow> string \<Rightarrow> string option" where
  "t_of tbl language key = logical_or (tbl language key) (tbl En key)"

definition useTranslation :: "language \<Rightarrow> string \<Rightarrow> string option" where
  "useTranslation language = t_of translations_table language"

text \<open>
  A second, small table of the same shape, on which the lookup can be run where the
  Arabic object lacks a key (\<open>home\<close>) and where it holds the empty string (\<open>about\<close>).
\<close>

definition sample_table :: table where
  "sample_table language =
     (case language of
        En \<Rightarrow> map_of [(''home'', ''Home''), (''about'', ''About'')]
      | Ar \<Rightarrow> map_of [(''about'', '''')])"

section \<open>src/data/projects.ts\<close>

text \<open>\<^verbatim>\<open>export type ProjectCategory = 'logos' | 'branding' | 'print' | 'uiux'\<close>\<close>

datatype ProjectCategory = Logos | Branding | Print | Uiux

text \<open>
  \<^verbatim>\<open>
  export interface Project {
    id: number; title: LocalizedText; description: LocalizedText;
    category: ProjectCategory; tags: string[]; images: string[];
    comments?: LocalizedText[];
  }
  \<close>
  The field \<^verbatim>\<open>id\<close> is named \<open>id_num\<close> here. The ids of the data are
  integers and the lookup compares them with \<^verbatim>\<open>===\<close>, so they are of type
  \<^typ>\<open>int\<close>.
\<close>

record Project =
  id_num :: int
  title :: LocalizedText
  description :: LocalizedText
  category :: ProjectCategory
  tags :: "string list"
  images :: "string list"
  comments :: "LocalizedText list option"

text \<open>The entries of \<^verbatim>\<open>export const projects: Project[] = [ ... ]\<close>, in source order.\<close>

definition project_1 :: Project where
  "project_1 =
    \<lparr>id_num = 1,
     title = \<lparr>en = Some ''Logo Brand & Identity For Ekleel Alenayah Medical Co.'',
       ar = Some [CHR 0xD8, CHR 0xB4, CHR 0xD8, CHR 0xB9, CHR 0xD8, CHR 0xA7, CHR 0xD8,
             CHR 0xB1, CHR 0x20, CHR 0xD9, CHR 0x88, CHR 0xD9, CHR 0x87, CHR 0xD9, CHR 0x88,
             CHR 0xD9, CHR 0x8A, CHR 0xD8, CHR 0xA9, CHR 0x20, CHR 0xD8, CHR 0xA8, CHR 0xD8,
             CHR 0xB5, CHR 0xD8, CHR 0xB1, CHR 0xD9, CHR 0x8A, CHR 0xD8, CHR 0xA9, CHR 0x20,
             CHR 0xD9, CHR 0x84, CHR 0xD8, CHR 0xB4, CHR 0xD8, CHR 0xB1, CHR 0xD9, CHR 0x83,
             CHR 0xD8, CHR 0xA9, CHR 0x20, CHR 0xD8, CHR 0xA5, CHR 0xD9, CHR 0x83, CHR 0xD9,
             CHR 0x84, CHR 0xD9, CHR 0x8A, CHR 0xD9, CHR 0x84, CHR 0x20, CHR 0xD8, CHR 0xA7,
             CHR 0xD9, CHR 0x84, CHR 0xD8, CHR 0xB9, CHR 0xD9, CHR 0x86, CHR 0xD8, CHR 0xA7,
             CHR 0xD9, CHR 0x8A, CHR 0xD8, CHR 0xA9, CHR 0x20, CHR 0xD8, CHR 0xA7, CHR 0xD9,
             CHR 0x84, CHR 0xD8, CHR 0xB7, CHR 0xD8, CHR 0xA8, CHR 0xD9, CHR 0x8A, CHR 0xD8,
             CHR 0xA9]\<rparr>,
     description = \<lparr>en = Some ''Luxury medical brand visual identity'',
       ar = Some [CHR 0xD9, CHR 0x87, CHR 0xD9, CHR 0x88, CHR 0xD9, CHR 0x8A, CHR 0xD8,
             CHR 0xA9, CHR 0x20, CHR 0xD8, CHR 0xA8, CHR 0xD8, CHR 0xB5, CHR 0xD8, CHR 0xB1,
             CHR 0xD9, CHR 0x8A, CHR 0xD8, CHR 0xA9, CHR 0x20, CHR 0xD9, CHR 0x81, CHR 0xD8,
             CHR 0xA7, CHR 0xD8, CHR 0xAE, CHR 0xD8, CHR 0xB1, CHR 0xD8, CHR 0xA9, CHR 0x20,
             CHR 0xD9, CHR 0x84, CHR 0xD8, CHR 0xB9, CHR 0xD9, CHR 0x84, CHR 0xD8, CHR 0xA7,
             CHR 0xD9, CHR 0x85, CHR 0xD8, CHR 0xA9, CHR 0x20, CHR 0xD8, CHR 0xB7, CHR 0xD8,
             CHR 0xA8, CHR 0xD9, CHR 0x8A, CHR 0xD8, CHR 0xA9]\<rparr>,
     category = Branding,
     tags = [''Medica'', ''Luxury'', ''Branding''],
     images =
           [''https://mir-s3-cdn-cf.behance.net/project_modules/fs_webp/5d60ca214380481.675743f089720.jpeg''],
     comments = Some [\<lparr>en = Some
           ''Professional, on-time delivery and a refined brand system. Great collaboration.'',
       ar = Some [CHR 0xD8, CHR 0xA7, CHR 0xD8, CHR 0xAD, CHR 0xD8, CHR 0xAA, CHR 0xD8,
             CHR 0xB1, CHR 0xD8, CHR 0xA7, CHR 0xD9, CHR 0x81, CHR 0xD9, CHR 0x8A, CHR 0xD8,
             CHR 0xA9, CHR 0x20, CHR 0xD9, CHR 0x88, CHR 0xD8, CHR 0xAA, CHR 0xD8, CHR 0xB3,
             CHR 0xD9, CHR 0x84, CHR 0xD9, CHR 0x8A, CHR 0xD9, CHR 0x85, CHR 0x20, CHR 0xD9,
             CHR 0x81, CHR 0xD9, CHR 0x8A, CHR 0x20, CHR 0xD8, CHR 0xA7, CHR 0xD9, CHR 0x84,
             CHR 0xD9, CHR 0x88, CHR 0xD9, CHR 0x82, CHR 0xD8, CHR 0xAA, CHR 0x20, CHR 0xD8,
             CHR 0xA7, CHR 0xD9, CHR 0x84, CHR 0xD9, CHR 0x85, CHR 0xD9, CHR 0x86, CHR 0xD8,
             CHR 0xA7, CHR 0xD8, CHR 0xB3, CHR 0xD8, CHR 0xA8, CHR 0x20, CHR 0xD9, CHR 0x88,
             CHR 0xD9, CHR 0x87, CHR 0xD9, CHR 0x88, CHR 0xD9, CHR 0x8A, CHR 0xD8, CHR 0xA9,
             CHR 0x20, CHR 0xD8, CHR 0xB9, CHR 0xD9, CHR 0x84, CHR 0xD8, CHR 0xA7, CHR 0xD9,
             CHR 0x85, CHR 0xD8, CHR 0xA9, CHR 0x20, CHR 0xD9, CHR 0x85, CHR 0xD8, CHR 0xAA,
             CHR 0xD9, CHR 0x82, CHR 0xD9, CHR 0x86, CHR 0xD8, CHR 0xA9, CHR 0x2E, CHR 0x20,
             CHR 0xD8, CHR 0xAA, CHR 0xD8, CHR 0xB9, CHR 0xD8, CHR 0xA7, CHR 0xD9, CHR 0x88,
             CHR 0xD9, CHR 0x86, CHR 0x20, CHR 0xD8, CHR 0xB1, CHR 0xD8, CHR 0xA7, CHR 0xD8,
             CHR 0xA6, CHR 0xD8, CHR 0xB9, CHR 0x2E]\<rparr>,
       \<lparr>en = Some ''Our medical brand finally looks premium and trustworthy.'',
       ar = Some [CHR 0xD8, CHR 0xB9, CHR 0xD9, CHR 0x84, CHR 0xD8, CHR 0xA7, CHR 0xD9,
             CHR 0x85, CHR 0xD8, CHR 0xAA, CHR 0xD9, CHR 0x86, CHR 0xD8, CHR 0xA7, CHR 0x20,
             CHR 0xD8, CHR 0xA7, CHR 0xD9, CHR 0x84, CHR 0xD8, CHR 0xB7, CHR 0xD8, CHR 0xA8,
             CHR 0xD9, CHR 0x8A, CHR 0xD8, CHR 0xA9, CHR 0x20, CHR 0xD8, CHR 0xA3, CHR 0xD8,
             CHR 0xB5, CHR 0xD8, CHR 0xA8, CHR 0xD8, CHR 0xAD, CHR 0xD8, CHR 0xAA, CHR 0x20,
             CHR 0xD8, CHR 0xAA, CHR 0xD8, CHR 0xA8, CHR 0xD8, CHR 0xAF, CHR 0xD9, CHR 0x88,
             CHR 0x20, CHR 0xD9, CHR 0x81, CHR 0xD8, CHR 0xA7, CHR 0xD8, CHR 0xAE, CHR 0xD8,
             CHR 0xB1, CHR 0xD8, CHR 0xA9, CHR 0x20, CHR 0xD9, CHR 0x88, CHR 0xD8, CHR 0xAC,
             CHR 0xD8, CHR 0xAF, CHR 0xD9, CHR 0x8A, CHR 0xD8, CHR 0xB1, CHR 0xD8, CHR 0xA9,
             CHR 0x20, CHR 0xD8, CHR 0xA8, CHR 0xD8, CHR 0xA7, CHR 0xD9, CHR 0x84, CHR 0xD8,
             CHR 0xAB, CHR 0xD9, CHR 0x82, CHR 0xD8, CHR 0xA9, CHR 0x2E]\<rparr>]\<rparr>"

definition project_2 :: Project where
  "project_2 =
    \<lparr>id_num = 2,
     title = \<lparr>en = Some ''Caesar Restaurant Logo Brand'',
       ar = Some [CHR 0xD8, CHR 0xAA, CHR 0xD8, CHR 0xB5, CHR 0xD9, CHR 0x85, CHR 0xD9,
             CHR 0x8A, CHR 0xD9, CHR 0x85, CHR 0x20, CHR 0xD8, CHR 0xB4, CHR 0xD8, CHR 0xB9,
             CHR 0xD8, CHR 0xA7, CHR 0xD8, CHR 0xB1, CHR 0x20, CHR 0xD8, CHR 0xB3, CHR 0xD9,
             CHR 0x84, CHR 0xD8, CHR 0xB3, CHR 0xD9, CHR 0x84, CHR 0xD8, CHR 0xA9, CHR 0x20,
             CHR 0xD9, CHR 0x85, CHR 0xD8, CHR 0xB7, CHR 0xD8, CHR 0xA7, CHR 0xD8, CHR 0xB9,
             CHR 0xD9, CHR 0x85, CHR 0x20, CHR 0xD8, CHR 0xA7, CHR 0xD9, CHR 0x84, CHR 0xD9,
             CHR 0x82, CHR 0xD9, CHR 0x8A, CHR 0xD8, CHR 0xB5, CHR 0xD8, CHR 0xB1]\<rparr>,
     description = \<lparr>en = Some ''Modern logo designs for restaurant chain'',
       ar = Some [CHR 0xD8, CHR 0xAA, CHR 0xD8, CHR 0xB5, CHR 0xD8, CHR 0xA7, CHR 0xD9,
             CHR 0x85, CHR 0xD9, CHR 0x8A, CHR 0xD9, CHR 0x85, CHR 0x20, CHR 0xD8, CHR 0xB4,
             CHR 0xD8, CHR 0xB9, CHR 0xD8, CHR 0xA7, CHR 0xD8, CHR 0xB1, CHR 0xD8, CHR 0xA7,
             CHR 0xD8, CHR 0xAA, CHR 0x20, CHR 0xD8, CHR 0xB9, CHR 0xD8, CHR 0xB5, CHR 0xD8,
             CHR 0xB1, CHR 0xD9, CHR 0x8A, CHR 0xD8, CHR 0xA9, CHR 0x20, CHR 0xD9, CHR 0x84,
             CHR 0xD8, CHR 0xB3, CHR 0xD9, CHR 0x84, CHR 0xD8, CHR 0xB3, CHR 0xD9, CHR 0x84,
             CHR 0xD8, CHR 0xA9, CHR 0x20, CHR 0xD9, CHR 0x85, CHR 0xD8, CHR 0xB7, CHR 0xD8,
             CHR 0xA7, CHR 0xD8, CHR 0xB9, CHR 0xD9, CHR 0x85]\<rparr>,
     category = Logos,
     tags = [''Logo'', ''Food'', ''Modern''],
     images =
           [''https://mir-s3-cdn-cf.behance.net/project_modules/fs_webp/60a714214380481.675743f084bea.jpeg''],
     comments = Some [\<lparr>en = Some
           ''The new logo boosted our brand recognition. Guests love it!'',
       ar = Some [CHR 0xD8, CHR 0xA7, CHR 0xD9, CHR 0x84, CHR 0xD8, CHR 0xB4, CHR 0xD8,
             CHR 0xB9, CHR 0xD8, CHR 0xA7, CHR 0xD8, CHR 0xB1, CHR 0x20, CHR 0xD8, CHR 0xA7,
             CHR 0xD9, CHR 0x84, CHR 0xD8, CHR 0xAC, CHR 0xD8, CHR 0xAF, CHR 0xD9, CHR 0x8A,
             CHR 0xD8, CHR 0xAF, CHR 0x20, CHR 0xD8, CHR 0xB9, CHR 0xD8, CHR 0xB2, CHR 0xD8,
             CHR 0xB2, CHR 0x20, CHR 0xD8, CHR 0xAA, CHR 0xD9, CHR 0x85, CHR 0xD9, CHR 0x8A,
             CHR 0xD9, CHR 0x91, CHR 0xD8, CHR 0xB2, CHR 0xD9, CHR 0x86, CHR 0xD8, CHR 0xA7,
             CHR 0x2E, CHR 0x20, CHR 0xD8, CHR 0xA7, CHR 0xD9, CHR 0x84, CHR 0xD8, CHR 0xB2,
             CHR 0xD8, CHR 0xA8, CHR 0xD8, CHR 0xA7, CHR 0xD8, CHR 0xA6, CHR 0xD9, CHR 0x86,
             CHR 0x20, CHR 0xD8, CHR 0xA3, CHR 0xD8, CHR 0xAD, CHR 0xD8, CHR 0xA8, CHR 0xD9,
             CHR 0x91, CHR 0xD9, CHR 0x88, CHR 0xD9, CHR 0x87, CHR 0x21]\<rparr>]\<rparr>"

definition project_3 :: Project where
  "project_3 =
    \<lparr>id_num = 3,
     title = \<lparr>en = Some ''Balsam Taiba Medical Co. Identity Design'',
       ar = Some [CHR 0xD8, CHR 0xAA, CHR 0xD8, CHR 0xB5, CHR 0xD9, CHR 0x85, CHR 0xD9,
             CHR 0x8A, CHR 0xD9, CHR 0x85, CHR 0x20, CHR 0xD8, CHR 0xB4, CHR 0xD8, CHR 0xB9,
             CHR 0xD8, CHR 0xA7, CHR 0xD8, CHR 0xB1, CHR 0x20, CHR 0xD9, CHR 0x88, CHR 0xD9,
             CHR 0x87, CHR 0xD9, CHR 0x88, CHR 0xD9, CHR 0x8A, CHR 0xD8, CHR 0xA9, CHR 0x20,
             CHR 0xD8, CHR 0xB4, CHR 0xD8, CHR 0xB1, CHR 0xD9, CHR 0x83, CHR 0xD8, CHR 0xA9,
             CHR 0x20, CHR 0xD8, CHR 0xA8, CHR 0xD9, CHR 0x84, CHR 0xD8, CHR 0xB3, CHR 0xD9,
             CHR 0x85, CHR 0x20, CHR 0xD8, CHR 0xB7, CHR 0xD9, CHR 0x8A, CHR 0xD8, CHR 0xA8,
             CHR 0xD8, CHR 0xA9, CHR 0x20, CHR 0xD8, CHR 0xA7, CHR 0xD9, CHR 0x84, CHR 0xD8,
             CHR 0xB7, CHR 0xD8, CHR 0xA8, CHR 0xD9, CHR 0x8A, CHR 0xD8, CHR 0xA9]\<rparr>,
     description = \<lparr>en = Some ''Complete brand identity package for tech company'',
       ar = Some [CHR 0xD8, CHR 0xAD, CHR 0xD8, CHR 0xB2, CHR 0xD9, CHR 0x85, CHR 0xD8,
             CHR 0xA9, CHR 0x20, CHR 0xD9, CHR 0x87, CHR 0xD9, CHR 0x88, CHR 0xD9, CHR 0x8A,
             CHR 0xD8, CHR 0xA9, CHR 0x20, CHR 0xD8, CHR 0xAA, CHR 0xD8, CHR 0xAC, CHR 0xD8,
             CHR 0xA7, CHR 0xD8, CHR 0xB1, CHR 0xD9, CHR 0x8A, CHR 0xD8, CHR 0xA9, CHR 0x20,
             CHR 0xD9, CHR 0x83, CHR 0xD8, CHR 0xA7, CHR 0xD9, CHR 0x85, CHR 0xD9, CHR 0x84,
             CHR 0xD8, CHR 0xA9, CHR 0x20, CHR 0xD9, CHR 0x84, CHR 0xD8, CHR 0xB4, CHR 0xD8,
             CHR 0xB1, CHR 0xD9, CHR 0x83, CHR 0xD8, CHR 0xA9, CHR 0x20, CHR 0xD8, CHR 0xAA,
             CHR 0xD9, CHR 0x82, CHR 0xD9, CHR 0x86, CHR 0xD9, CHR 0x8A, CHR 0xD8,
             CHR 0xA9]\<rparr>,
     category = Branding,
     tags = [''branding'', ''Logo'', ''Guidelines''],
     images =
           [''https://mir-s3-cdn-cf.behance.net/project_modules/fs_webp/3ae409214380481.675743f08c104.jpeg''],
     comments = Some [\<lparr>en = Some
           ''Clear guidelines and a strong identity we can scale with.'',
       ar = Some [CHR 0xD8, CHR 0xA5, CHR 0xD8, CHR 0xB1, CHR 0xD8, CHR 0xB4, CHR 0xD8,
             CHR 0xA7, CHR 0xD8, CHR 0xAF, CHR 0xD8, CHR 0xA7, CHR 0xD8, CHR 0xAA, CHR 0x20,
             CHR 0xD9, CHR 0x88, CHR 0xD8, CHR 0xA7, CHR 0xD8, CHR 0xB6, CHR 0xD8, CHR 0xAD,
             CHR 0xD8, CHR 0xA9, CHR 0x20, CHR 0xD9, CHR 0x88, CHR 0xD9, CHR 0x87, CHR 0xD9,
             CHR 0x88, CHR 0xD9, CHR 0x8A, CHR 0xD8, CHR 0xA9, CHR 0x20, CHR 0xD9, CHR 0x82,
             CHR 0xD9, CHR 0x88, CHR 0xD9, CHR 0x8A, CHR 0xD8, CHR 0xA9, CHR 0x20, CHR 0xD9,
             CHR 0x8A, CHR 0xD9, CHR 0x85, CHR 0xD9, CHR 0x83, CHR 0xD9, CHR 0x86, CHR 0xD9,
             CHR 0x86, CHR 0xD8, CHR 0xA7, CHR 0x20, CHR 0xD8, CHR 0xA7, CHR 0xD9, CHR 0x84,
             CHR 0xD8, CHR 0xAA, CHR 0xD9, CHR 0x88, CHR 0xD8, CHR 0xB3, CHR 0xD8, CHR 0xB9,
             CHR 0x20, CHR 0xD8, CHR 0xA8, CHR 0xD9, CHR 0x87, CHR 0xD8, CHR 0xA7,
             CHR 0x2E]\<rparr>]\<rparr>"

definition project_4 :: Project where
  "project_4 =
    \<lparr>id_num = 4,
     title = \<lparr>en = Some ''Jawaher Al Alamia Exchange'',
       ar = Some [CHR 0xD8, CHR 0xAA, CHR 0xD8, CHR 0xB5, CHR 0xD9, CHR 0x85, CHR 0xD9,
             CHR 0x8A, CHR 0xD9, CHR 0x85, CHR 0x20, CHR 0xD8, CHR 0xB4, CHR 0xD8, CHR 0xB9,
             CHR 0xD8, CHR 0xA7, CHR 0xD8, CHR 0xB1, CHR 0x20, CHR 0xD8, CHR 0xAC, CHR 0xD9,
             CHR 0x88, CHR 0xD8, CHR 0xA7, CHR 0xD9, CHR 0x87, CHR 0xD8, CHR 0xB1, CHR 0x20,
             CHR 0xD8, CHR 0xA7, CHR 0xD9, CHR 0x84, CHR 0xD8, CHR 0xB9, CHR 0xD8, CHR 0xA7,
             CHR 0xD9, CHR 0x84, CHR 0xD9, CHR 0x85, CHR 0xD9, CHR 0x8A, CHR 0xD8, CHR 0xA9,
             CHR 0x20, CHR 0xD9, CHR 0x84, CHR 0xD9, CHR 0x84, CHR 0xD8, CHR 0xB5, CHR 0xD8,
             CHR 0xB1, CHR 0xD8, CHR 0xA7, CHR 0xD9, CHR 0x81, CHR 0xD8, CHR 0xA9]\<rparr>,
     description = \<lparr>en = Some
           ''Expert Logo demonstrates simplicity and artistic customer touches'',
       ar = Some [CHR 0xD8, CHR 0xAA, CHR 0xD8, CHR 0xB5, CHR 0xD9, CHR 0x85, CHR 0xD9,
             CHR 0x8A, CHR 0xD9, CHR 0x85, CHR 0x20, CHR 0xD8, CHR 0xA7, CHR 0xD8, CHR 0xAD,
             CHR 0xD8, CHR 0xAA, CHR 0xD8, CHR 0xB1, CHR 0xD8, CHR 0xA7, CHR 0xD9, CHR 0x81,
             CHR 0xD9, CHR 0x8A, CHR 0x20, CHR 0xD9, CHR 0x8A, CHR 0xD8, CHR 0xAA, CHR 0xD9,
             CHR 0x85, CHR 0xD9, CHR 0x8A, CHR 0xD8, CHR 0xB2, CHR 0x20, CHR 0xD8, CHR 0xA8,
             CHR 0xD8, CHR 0xA7, CHR 0xD9, CHR 0x84, CHR 0xD8, CHR 0xA8, CHR 0xD8, CHR 0xB3,
             CHR 0xD8, CHR 0xA7, CHR 0xD8, CHR 0xB7, CHR 0xD8, CHR 0xA9, CHR 0x20, CHR 0xD9,
             CHR 0x88, CHR 0xD8, CHR 0xAA, CHR 0xD8, CHR 0xB8, CHR 0xD9, CHR 0x87, CHR 0xD8,
             CHR 0xB1, CHR 0x20, CHR 0xD9, CHR 0x81, CHR 0xD9, CHR 0x8A, CHR 0xD9, CHR 0x87,
             CHR 0x20, CHR 0xD9, CHR 0x84, CHR 0xD9, CHR 0x85, CHR 0xD8, CHR 0xB3, CHR 0xD8,
             CHR 0xA7, CHR 0xD8, CHR 0xAA, CHR 0x20, CHR 0xD8, CHR 0xA7, CHR 0xD9, CHR 0x84,
             CHR 0xD8, CHR 0xB9, CHR 0xD9, CHR 0x85, CHR 0xD9, CHR 0x8A, CHR 0xD9,
             CHR 0x84]\<rparr>,
     category = Logos,
     tags = [''Ai/Ps'', ''Brand'', ''Logo Design''],
     images =
           [''https://mir-s3-cdn-cf.behance.net/project_modules/fs_webp/baa953214380481.675743f08b86f.jpeg''],
     comments = Some [\<lparr>en = Some [CHR 0x45, CHR 0x6C, CHR 0x65, CHR 0x67, CHR 0x61,
           CHR 0x6E, CHR 0x74, CHR 0x20, CHR 0x61, CHR 0x6E, CHR 0x64, CHR 0x20, CHR 0x6D,
           CHR 0x65, CHR 0x6D, CHR 0x6F, CHR 0x72, CHR 0x61, CHR 0x62, CHR 0x6C, CHR 0x65,
           CHR 0xE2, CHR 0x80, CHR 0x94, CHR 0x65, CHR 0x78, CHR 0x61, CHR 0x63, CHR 0x74,
           CHR 0x6C, CHR 0x79, CHR 0x20, CHR 0x77, CHR 0x68, CHR 0x61, CHR 0x74, CHR 0x20,
           CHR 0x77, CHR 0x65, CHR 0x20, CHR 0x77, CHR 0x61, CHR 0x6E, CHR 0x74, CHR 0x65,
           CHR 0x64, CHR 0x2E],
       ar = Some [CHR 0xD8, CHR 0xA3, CHR 0xD9, CHR 0x86, CHR 0xD9, CHR 0x8A, CHR 0xD9,
             CHR 0x82, CHR 0x20, CHR 0xD9, CHR 0x88, CHR 0xD9, CHR 0x84, CHR 0xD8, CHR 0xA7,
             CHR 0x20, CHR 0xD9, CHR 0x8A, CHR 0xD9, CHR 0x86, CHR 0xD8, CHR 0xB3, CHR 0xD9,
             CHR 0x89, CHR 0xE2, CHR 0x80, CHR 0x94, CHR 0xD8, CHR 0xAA, CHR 0xD9, CHR 0x85,
             CHR 0xD8, CHR 0xA7, CHR 0xD9, CHR 0x85, CHR 0xD8, CHR 0xA7, CHR 0xD9, CHR 0x8B,
             CHR 0x20, CHR 0xD9, CHR 0x85, CHR 0xD8, CHR 0xA7, CHR 0x20, CHR 0xD8, CHR 0xA3,
             CHR 0xD8, CHR 0xB1, CHR 0xD8, CHR 0xAF, CHR 0xD9, CHR 0x86, CHR 0xD8, CHR 0xA7,
             CHR 0xD9, CHR 0x87, CHR 0x2E]\<rparr>]\<rparr>"

definition project_5 :: Project where
  "project_5 =
    \<lparr>id_num = 5,
     title = \<lparr>en = Some ''Logo Brand & Identity For Kahraman & Zapheer Jewels Co.'',
       ar = Some [CHR 0xD8, CHR 0xB4, CHR 0xD8, CHR 0xB9, CHR 0xD8, CHR 0xA7, CHR 0xD8,
             CHR 0xB1, CHR 0x20, CHR 0xD9, CHR 0x88, CHR 0xD9, CHR 0x87, CHR 0xD9, CHR 0x88,
             CHR 0xD9, CHR 0x8A, CHR 0xD8, CHR 0xA9, CHR 0x20, CHR 0xD8, CHR 0xA8, CHR 0xD8,
             CHR 0xB5, CHR 0xD8, CHR 0xB1, CHR 0xD9, CHR 0x8A, CHR 0xD8, CHR 0xA9, CHR 0x20,
             CHR 0xD9, CHR 0x84, CHR 0xD8, CHR 0xB4, CHR 0xD8, CHR 0xB1, CHR 0xD9, CHR 0x83,
             CHR 0xD8, CHR 0xA9, CHR 0x20, CHR 0xD9, CHR 0x85, CHR 0xD8, CHR 0xAC, CHR 0xD9,
             CHR 0x88, CHR 0xD9, CHR 0x87, CHR 0xD8, CHR 0xB1, CHR 0xD8, CHR 0xA7, CHR 0xD8,
             CHR 0xAA, CHR 0x20, CHR 0xD9, CHR 0x83, CHR 0xD9, CHR 0x87, CHR 0xD8, CHR 0xB1,
             CHR 0xD9, CHR 0x85, CHR 0xD8, CHR 0xA7, CHR 0xD9, CHR 0x86, CHR 0x20, CHR 0xD9,
             CHR 0x88, CHR 0xD8, CHR 0xB2, CHR 0xD9, CHR 0x81, CHR 0xD9, CHR 0x8A, CHR 0xD8,
             CHR 0xB1]\<rparr>,
     description = \<lparr>en = Some ''Luxury medical brand visual identity'',
       ar = Some [CHR 0xD9, CHR 0x87, CHR 0xD9, CHR 0x88, CHR 0xD9, CHR 0x8A, CHR 0xD8,
             CHR 0xA9, CHR 0x20, CHR 0xD8, CHR 0xA8, CHR 0xD8, CHR 0xB5, CHR 0xD8, CHR 0xB1,
             CHR 0xD9, CHR 0x8A, CHR 0xD8, CHR 0xA9, CHR 0x20, CHR 0xD9, CHR 0x81, CHR 0xD8,
             CHR 0xA7, CHR 0xD8, CHR 0xAE, CHR 0xD8, CHR 0xB1, CHR 0xD8, CHR 0xA9, CHR 0x20,
             CHR 0xD9, CHR 0x84, CHR 0xD8, CHR 0xB9, CHR 0xD9, CHR 0x84, CHR 0xD8, CHR 0xA7,
             CHR 0xD9, CHR 0x85, CHR 0xD8, CHR 0xA9, CHR 0x20, CHR 0xD8, CHR 0xB7, CHR 0xD8,
             CHR 0xA8, CHR 0xD9, CHR 0x8A, CHR 0xD8, CHR 0xA9]\<rparr>,
     category = Branding,
     tags = [''Gold'', ''Luxury'', ''Branding''],
     images =
           [''https://mir-s3-cdn-cf.behance.net/project_modules/fs_webp/699a54214380481.675743f087224.jpeg''],
     comments = Some [\<lparr>en = Some
           ''Premium look that resonates with our jewelry audience.'',
       ar = Some [CHR 0xD9, CHR 0x85, CHR 0xD8, CHR 0xB8, CHR 0xD9, CHR 0x87, CHR 0xD8,
             CHR 0xB1, CHR 0x20, CHR 0xD9, CHR 0x81, CHR 0xD8, CHR 0xA7, CHR 0xD8, CHR 0xAE,
             CHR 0xD8, CHR 0xB1, CHR 0x20, CHR 0xD9, CHR 0x8A, CHR 0xD9, CHR 0x86, CHR 0xD8,
             CHR 0xB3, CHR 0xD8, CHR 0xAC, CHR 0xD9, CHR 0x85, CHR 0x20, CHR 0xD9, CHR 0x85,
             CHR 0xD8, CHR 0xB9, CHR 0x20, CHR 0xD8, CHR 0xAC, CHR 0xD9, CHR 0x85, CHR 0xD9,
             CHR 0x87, CHR 0xD9, CHR 0x88, CHR 0xD8, CHR 0xB1, CHR 0x20, CHR 0xD8, CHR 0xA7,
             CHR 0xD9, CHR 0x84, CHR 0xD9, CHR 0x85, CHR 0xD8, CHR 0xAC, CHR 0xD9, CHR 0x88,
             CHR 0xD9, CHR 0x87, CHR 0xD8, CHR 0xB1, CHR 0xD8, CHR 0xA7, CHR 0xD8, CHR 0xAA,
             CHR 0x20, CHR 0xD9, CHR 0x84, CHR 0xD8, CHR 0xAF, CHR 0xD9, CHR 0x8A, CHR 0xD9,
             CHR 0x86, CHR 0xD8, CHR 0xA7, CHR 0x2E]\<rparr>]\<rparr>"

definition project_6 :: Project where
  "project_6 =
    \<lparr>id_num = 6,
     title = \<lparr>en = Some ''Al Khattabi Press Logo'',
       ar = Some [CHR 0xD8, CHR 0xB4, CHR 0xD8, CHR 0xB9, CHR 0xD8, CHR 0xA7, CHR 0xD8,
             CHR 0xB1, CHR 0x20, CHR 0xD9, CHR 0x85, CHR 0xD8, CHR 0xB7, CHR 0xD8, CHR 0xA7,
             CHR 0xD8, CHR 0xA8, CHR 0xD8, CHR 0xB9, CHR 0x20, CHR 0xD8, CHR 0xA7, CHR 0xD9,
             CHR 0x84, CHR 0xD8, CHR 0xAE, CHR 0xD8, CHR 0xB7, CHR 0xD8, CHR 0xA7, CHR 0xD8,
             CHR 0xA8, CHR 0xD9, CHR 0x8A]\<rparr>,
     description = \<lparr>en = Some ''Innovative logo for Printing Press startups'',
       ar = Some [CHR 0xD8, CHR 0xB4, CHR 0xD8, CHR 0xB9, CHR 0xD8, CHR 0xA7, CHR 0xD8,
             CHR 0xB1, CHR 0x20, CHR 0xD9, CHR 0x85, CHR 0xD8, CHR 0xA8, CHR 0xD8, CHR 0xAA,
             CHR 0xD9, CHR 0x83, CHR 0xD8, CHR 0xB1, CHR 0x20, CHR 0xD9, CHR 0x84, CHR 0xD8,
             CHR 0xB4, CHR 0xD8, CHR 0xB1, CHR 0xD9, CHR 0x83, CHR 0xD8, CHR 0xA9, CHR 0x20,
             CHR 0xD8, CHR 0xB7, CHR 0xD8, CHR 0xA8, CHR 0xD8, CHR 0xA7, CHR 0xD8, CHR 0xB9,
             CHR 0xD8, CHR 0xA9]\<rparr>,
     category = Logos,
     tags = [''Printing'', ''Startup'', ''Materials''],
     images =
           [''https://mir-s3-cdn-cf.behance.net/project_modules/fs_webp/12d4c7214380481.675743f08a857.jpeg''],
     comments = Some [\<lparr>en = Some ''Simple, smart, and highly printable across materials.'',
       ar = Some [CHR 0xD8, CHR 0xA8, CHR 0xD8, CHR 0xB3, CHR 0xD9, CHR 0x8A, CHR 0xD8,
             CHR 0xB7, CHR 0x20, CHR 0xD9, CHR 0x88, CHR 0xD8, CHR 0xB0, CHR 0xD9, CHR 0x83,
             CHR 0xD9, CHR 0x8A, CHR 0x20, CHR 0xD9, CHR 0x88, CHR 0xD9, CHR 0x82, CHR 0xD8,
             CHR 0xA7, CHR 0xD8, CHR 0xA8, CHR 0xD9, CHR 0x84, CHR 0x20, CHR 0xD9, CHR 0x84,
             CHR 0xD9, CHR 0x84, CHR 0xD8, CHR 0xB7, CHR 0xD8, CHR 0xA8, CHR 0xD8, CHR 0xA7,
             CHR 0xD8, CHR 0xB9, CHR 0xD8, CHR 0xA9, CHR 0x20, CHR 0xD8, CHR 0xB9, CHR 0xD9,
             CHR 0x84, CHR 0xD9, CHR 0x89, CHR 0x20, CHR 0xD9, CHR 0x85, CHR 0xD8, CHR 0xAE,
             CHR 0xD8, CHR 0xAA, CHR 0xD9, CHR 0x84, CHR 0xD9, CHR 0x81, CHR 0x20, CHR 0xD8,
             CHR 0xA7, CHR 0xD9, CHR 0x84, CHR 0xD9, CHR 0x85, CHR 0xD9, CHR 0x88, CHR 0xD8,
             CHR 0xA7, CHR 0xD8, CHR 0xAF, CHR 0x2E]\<rparr>]\<rparr>"

definition project_7 :: Project where
  "project_7 =
    \<lparr>id_num = 7,
     title = \<lparr>en = Some ''Bahaa Silver Logo Design'',
       ar = Some [CHR 0xD8, CHR 0xAA, CHR 0xD8, CHR 0xB5, CHR 0xD9, CHR 0x85, CHR 0xD9,
             CHR 0x8A, CHR 0xD9, CHR 0x85, CHR 0x20, CHR 0xD8, CHR 0xB4, CHR 0xD8, CHR 0xB9,
             CHR 0xD8, CHR 0xA7, CHR 0xD8, CHR 0xB1, CHR 0x20, CHR 0xD8, CHR 0xB4, CHR 0xD8,
             CHR 0xB1, CHR 0xD9, CHR 0x83, CHR 0xD8, CHR 0xA9, CHR 0x20, CHR 0xD8, CHR 0xA8,
             CHR 0xD9, CHR 0x87, CHR 0xD8, CHR 0xA7, CHR 0xD8, CHR 0xA1, CHR 0x20, CHR 0xD8,
             CHR 0xA7, CHR 0xD9, CHR 0x84, CHR 0xD9, CHR 0x81, CHR 0xD8, CHR 0xB6, CHR 0xD8,
             CHR 0xA9]\<rparr>,
     description = \<lparr>en = Some ''Creative Brand Logo by typography'',
       ar = Some [CHR 0xD8, CHR 0xB4, CHR 0xD8, CHR 0xB9, CHR 0xD8, CHR 0xA7, CHR 0xD8,
             CHR 0xB1, CHR 0x20, CHR 0xD8, CHR 0xB9, CHR 0xD9, CHR 0x84, CHR 0xD8, CHR 0xA7,
             CHR 0xD9, CHR 0x85, CHR 0xD8, CHR 0xA9, CHR 0x20, CHR 0xD8, CHR 0xAA, CHR 0xD8,
             CHR 0xAC, CHR 0xD8, CHR 0xA7, CHR 0xD8, CHR 0xB1, CHR 0xD9, CHR 0x8A, CHR 0xD8,
             CHR 0xA9, CHR 0x20, CHR 0xD8, CHR 0xA5, CHR 0xD8, CHR 0xA8, CHR 0xD8, CHR 0xAF,
             CHR 0xD8, CHR 0xA7, CHR 0xD8, CHR 0xB9, CHR 0xD9, CHR 0x8A, CHR 0x20, CHR 0xD8,
             CHR 0xA8, CHR 0xD8, CHR 0xB7, CHR 0xD8, CHR 0xB1, CHR 0xD9, CHR 0x8A, CHR 0xD9,
             CHR 0x82, CHR 0xD8, CHR 0xA9, CHR 0x20, CHR 0xD8, CHR 0xA7, CHR 0xD9, CHR 0x84,
             CHR 0xD8, CHR 0xAA, CHR 0xD8, CHR 0xA7, CHR 0xD9, CHR 0x8A, CHR 0xD8, CHR 0xA8,
             CHR 0xD9, CHR 0x88, CHR 0xD8, CHR 0xAC, CHR 0xD8, CHR 0xB1, CHR 0xD8, CHR 0xA7,
             CHR 0xD9, CHR 0x81, CHR 0xD9, CHR 0x8A]\<rparr>,
     category = Print,
     tags = [''Gold & Silver'', ''Typography'', ''Layout''],
     images =
           [''https://mir-s3-cdn-cf.behance.net/project_modules/fs_webp/8d1d60214380481.675743f07ecfa.jpeg''],
     comments = Some [\<lparr>en = Some ''Typography-led concept that stands out.'',
       ar = Some [CHR 0xD9, CHR 0x85, CHR 0xD9, CHR 0x81, CHR 0xD9, CHR 0x87, CHR 0xD9,
             CHR 0x88, CHR 0xD9, CHR 0x85, CHR 0x20, CHR 0xD9, CHR 0x82, CHR 0xD8, CHR 0xA7,
             CHR 0xD8, CHR 0xA6, CHR 0xD9, CHR 0x85, CHR 0x20, CHR 0xD8, CHR 0xB9, CHR 0xD9,
             CHR 0x84, CHR 0xD9, CHR 0x89, CHR 0x20, CHR 0xD8, CHR 0xA7, CHR 0xD9, CHR 0x84,
             CHR 0xD8, CHR 0xAA, CHR 0xD8, CHR 0xA7, CHR 0xD9, CHR 0x8A, CHR 0xD8, CHR 0xA8,
             CHR 0xD9, CHR 0x88, CHR 0xD8, CHR 0xBA, CHR 0xD8, CHR 0xB1, CHR 0xD8, CHR 0xA7,
             CHR 0xD9, CHR 0x81, CHR 0xD9, CHR 0x8A, CHR 0x20, CHR 0xD9, CHR 0x8A, CHR 0xD8,
             CHR 0xA8, CHR 0xD8, CHR 0xB1, CHR 0xD8, CHR 0xB2, CHR 0x20, CHR 0xD8, CHR 0xA8,
             CHR 0xD9, CHR 0x82, CHR 0xD9, CHR 0x88, CHR 0xD8, CHR 0xA9,
             CHR 0x2E]\<rparr>]\<rparr>"

definition project_8 :: Project where
  "project_8 =
    \<lparr>id_num = 8,
     title = \<lparr>en = Some ''Jenan Yemeni Hony Logo Design'',
       ar = Some [CHR 0xD8, CHR 0xAA, CHR 0xD8, CHR 0xB5, CHR 0xD9, CHR 0x85, CHR 0xD9,
             CHR 0x8A, CHR 0xD9, CHR 0x85, CHR 0x20, CHR 0xD8, CHR 0xB4, CHR 0xD8, CHR 0xB9,
             CHR 0xD8, CHR 0xA7, CHR 0xD8, CHR 0xB1, CHR 0x20, CHR 0xD8, CHR 0xB4, CHR 0xD8,
             CHR 0xB1, CHR 0xD9, CHR 0x83, CHR 0xD8, CHR 0xA9, CHR 0x20, CHR 0xD8, CHR 0xAC,
             CHR 0xD9, CHR 0x86, CHR 0xD8, CHR 0xA7, CHR 0xD9, CHR 0x86, CHR 0x20, CHR 0xD9,
             CHR 0x84, CHR 0xD9, CHR 0x84, CHR 0xD8, CHR 0xB9, CHR 0xD8, CHR 0xB3, CHR 0xD9,
             CHR 0x84, CHR 0x20, CHR 0xD8, CHR 0xA7, CHR 0xD9, CHR 0x84, CHR 0xD9, CHR 0x8A,
             CHR 0xD9, CHR 0x85, CHR 0xD9, CHR 0x86, CHR 0xD9, CHR 0x8A]\<rparr>,
     description = \<lparr>en = Some ''Modern commerce branding design'',
       ar = Some [CHR 0xD8, CHR 0xAA, CHR 0xD8, CHR 0xB5, CHR 0xD9, CHR 0x85, CHR 0xD9,
             CHR 0x8A, CHR 0xD9, CHR 0x85, CHR 0x20, CHR 0xD9, CHR 0x87, CHR 0xD9, CHR 0x88,
             CHR 0xD9, CHR 0x8A, CHR 0xD8, CHR 0xA9, CHR 0x20, CHR 0xD8, CHR 0xAA, CHR 0xD8,
             CHR 0xAC, CHR 0xD8, CHR 0xA7, CHR 0xD8, CHR 0xB1, CHR 0xD9, CHR 0x8A, CHR 0xD8,
             CHR 0xA9, CHR 0x20, CHR 0xD8, CHR 0xB9, CHR 0xD8, CHR 0xB5, CHR 0xD8, CHR 0xB1,
             CHR 0xD9, CHR 0x8A, CHR 0xD8, CHR 0xA9]\<rparr>,
     category = Branding,
     tags = [''Commerce'', ''Branding'', ''Logo''],
     images =
           [''https://mir-s3-cdn-cf.behance.net/project_modules/fs_webp/9a450c214380481.675743f081bb3.jpeg''],
     comments = Some [\<lparr>en = Some ''Captured our product story beautifully.'',
       ar = Some [CHR 0xD8, CHR 0xB9, CHR 0xD9, CHR 0x83, CHR 0xD8, CHR 0xB3, CHR 0x20,
             CHR 0xD9, CHR 0x82, CHR 0xD8, CHR 0xB5, CHR 0xD8, CHR 0xA9, CHR 0x20, CHR 0xD9,
             CHR 0x85, CHR 0xD9, CHR 0x86, CHR 0xD8, CHR 0xAA, CHR 0xD8, CHR 0xAC, CHR 0xD9,
             CHR 0x86, CHR 0xD8, CHR 0xA7, CHR 0x20, CHR 0xD8, CHR 0xA8, CHR 0xD8, CHR 0xB4,
             CHR 0xD9, CHR 0x83, CHR 0xD9, CHR 0x84, CHR 0x20, CHR 0xD8, CHR 0xAC, CHR 0xD9,
             CHR 0x85, CHR 0xD9, CHR 0x8A, CHR 0xD9, CHR 0x84, CHR 0x2E]\<rparr>]\<rparr>"

definition project_9 :: Project where
  "project_9 =
    \<lparr>id_num = 9,
     title = \<lparr>en = Some ''Social Media Adv'',
       ar = Some [CHR 0xD8, CHR 0xAA, CHR 0xD8, CHR 0xB5, CHR 0xD8, CHR 0xA7, CHR 0xD9,
             CHR 0x85, CHR 0xD9, CHR 0x8A, CHR 0xD9, CHR 0x85, CHR 0x20, CHR 0xD8, CHR 0xA7,
             CHR 0xD9, CHR 0x84, CHR 0xD8, CHR 0xB3, CHR 0xD9, CHR 0x88, CHR 0xD8, CHR 0xB4,
             CHR 0xD8, CHR 0xA7, CHR 0xD9, CHR 0x84, CHR 0x20, CHR 0xD9, CHR 0x85, CHR 0xD9,
             CHR 0x8A, CHR 0xD8, CHR 0xAF, CHR 0xD9, CHR 0x8A, CHR 0xD8, CHR 0xA7]\<rparr>,
     description = \<lparr>en = Some ''Expert social media design'',
       ar = Some [CHR 0xD8, CHR 0xAA, CHR 0xD8, CHR 0xB5, CHR 0xD9, CHR 0x85, CHR 0xD9,
             CHR 0x8A, CHR 0xD9, CHR 0x85, CHR 0x20, CHR 0xD8, CHR 0xA7, CHR 0xD8, CHR 0xAD,
             CHR 0xD8, CHR 0xAA, CHR 0xD8, CHR 0xB1, CHR 0xD8, CHR 0xA7, CHR 0xD9, CHR 0x81,
             CHR 0xD9, CHR 0x8A, CHR 0x20, CHR 0xD9, CHR 0x84, CHR 0xD9, CHR 0x88, CHR 0xD8,
             CHR 0xB3, CHR 0xD8, CHR 0xA7, CHR 0xD8, CHR 0xA6, CHR 0xD9, CHR 0x84, CHR 0x20,
             CHR 0xD8, CHR 0xA7, CHR 0xD9, CHR 0x84, CHR 0xD8, CHR 0xAA, CHR 0xD9, CHR 0x88,
             CHR 0xD8, CHR 0xA7, CHR 0xD8, CHR 0xB5, CHR 0xD9, CHR 0x84, CHR 0x20, CHR 0xD8,
             CHR 0xA7, CHR 0xD9, CHR 0x84, CHR 0xD8, CHR 0xA7, CHR 0xD8, CHR 0xAC, CHR 0xD8,
             CHR 0xAA, CHR 0xD9, CHR 0x85, CHR 0xD8, CHR 0xA7, CHR 0xD8, CHR 0xB9, CHR 0xD9,
             CHR 0x8A]\<rparr>,
     category = Branding,
     tags = [''Ai/Ps'', ''Social'', ''Design''],
     images =
           [''https://mir-s3-cdn-cf.behance.net/project_modules/fs_webp/bed92e214380481.675743f08c922.jpeg''],
     comments = Some [\<lparr>en = Some ''Engagement went up after the new creatives.'',
       ar = Some [CHR 0xD8, CHR 0xB2, CHR 0xD8, CHR 0xA7, CHR 0xD8, CHR 0xAF, CHR 0x20,
             CHR 0xD8, CHR 0xA7, CHR 0xD9, CHR 0x84, CHR 0xD8, CHR 0xAA, CHR 0xD9, CHR 0x81,
             CHR 0xD8, CHR 0xA7, CHR 0xD8, CHR 0xB9, CHR 0xD9, CHR 0x84, CHR 0x20, CHR 0xD8,
             CHR 0xA8, CHR 0xD8, CHR 0xB9, CHR 0xD8, CHR 0xAF, CHR 0x20, CHR 0xD8, CHR 0xA7,
             CHR 0xD9, CHR 0x84, CHR 0xD8, CHR 0xAA, CHR 0xD8, CHR 0xB5, CHR 0xD8, CHR 0xA7,
             CHR 0xD9, CHR 0x85, CHR 0xD9, CHR 0x8A, CHR 0xD9, CHR 0x85, CHR 0x20, CHR 0xD8,
             CHR 0xA7, CHR 0xD9, CHR 0x84, CHR 0xD8, CHR 0xAC, CHR 0xD8, CHR 0xAF, CHR 0xD9,
             CHR 0x8A, CHR 0xD8, CHR 0xAF, CHR 0xD8, CHR 0xA9, CHR 0x2E]\<rparr>]\<rparr>"

definition project_10 :: Project where
  "project_10 =
    \<lparr>id_num = 10,
     title = \<lparr>en = Some ''Annual Report Design'',
       ar = Some [CHR 0xD8, CHR 0xAA, CHR 0xD8, CHR 0xB5, CHR 0xD9, CHR 0x85, CHR 0xD9,
             CHR 0x8A, CHR 0xD9, CHR 0x85, CHR 0x20, CHR 0xD8, CHR 0xA7, CHR 0xD9, CHR 0x84,
             CHR 0xD8, CHR 0xAA, CHR 0xD9, CHR 0x82, CHR 0xD8, CHR 0xB1, CHR 0xD9, CHR 0x8A,
             CHR 0xD8, CHR 0xB1, CHR 0x20, CHR 0xD8, CHR 0xA7, CHR 0xD9, CHR 0x84, CHR 0xD8,
             CHR 0xB3, CHR 0xD9, CHR 0x86, CHR 0xD9, CHR 0x88, CHR 0xD9, CHR 0x8A]\<rparr>,
     description = \<lparr>en = Some ''Professional annual report layout and design'',
       ar = Some [CHR 0xD8, CHR 0xAA, CHR 0xD8, CHR 0xAE, CHR 0xD8, CHR 0xB7, CHR 0xD9,
             CHR 0x8A, CHR 0xD8, CHR 0xB7, CHR 0x20, CHR 0xD9, CHR 0x88, CHR 0xD8, CHR 0xAA,
             CHR 0xD8, CHR 0xB5, CHR 0xD9, CHR 0x85, CHR 0xD9, CHR 0x8A, CHR 0xD9, CHR 0x85,
             CHR 0x20, CHR 0xD8, CHR 0xAA, CHR 0xD9, CHR 0x82, CHR 0xD8, CHR 0xB1, CHR 0xD9,
             CHR 0x8A, CHR 0xD8, CHR 0xB1, CHR 0x20, CHR 0xD8, CHR 0xB3, CHR 0xD9, CHR 0x86,
             CHR 0xD9, CHR 0x88, CHR 0xD9, CHR 0x8A, CHR 0x20, CHR 0xD8, CHR 0xA7, CHR 0xD8,
             CHR 0xAD, CHR 0xD8, CHR 0xAA, CHR 0xD8, CHR 0xB1, CHR 0xD8, CHR 0xA7, CHR 0xD9,
             CHR 0x81, CHR 0xD9, CHR 0x8A]\<rparr>,
     category = Print,
     tags = [''Print'', ''Layout'', ''Corporate''],
     images =
           [''https://mir-s3-cdn-cf.behance.net/project_modules/fs_webp/6c98f5214380481.675743f092c71.jpeg''],
     comments = Some [\<lparr>en = Some
           ''Clear structure, premium layouts, and on-time delivery.'',
       ar = Some [CHR 0xD9, CHR 0x87, CHR 0xD9, CHR 0x8A, CHR 0xD9, CHR 0x83, CHR 0xD9,
             CHR 0x84, CHR 0x20, CHR 0xD9, CHR 0x88, CHR 0xD8, CHR 0xA7, CHR 0xD8, CHR 0xB6,
             CHR 0xD8, CHR 0xAD, CHR 0x20, CHR 0xD9, CHR 0x88, CHR 0xD8, CHR 0xAA, CHR 0xD8,
             CHR 0xAE, CHR 0xD8, CHR 0xB7, CHR 0xD9, CHR 0x8A, CHR 0xD8, CHR 0xB7, CHR 0xD8,
             CHR 0xA7, CHR 0xD8, CHR 0xAA, CHR 0x20, CHR 0xD9, CHR 0x81, CHR 0xD8, CHR 0xA7,
             CHR 0xD8, CHR 0xAE, CHR 0xD8, CHR 0xB1, CHR 0xD8, CHR 0xA9, CHR 0x20, CHR 0xD9,
             CHR 0x88, CHR 0xD8, CHR 0xAA, CHR 0xD8, CHR 0xB3, CHR 0xD9, CHR 0x84, CHR 0xD9,
             CHR 0x8A, CHR 0xD9, CHR 0x85, CHR 0x20, CHR 0xD9, CHR 0x81, CHR 0xD9, CHR 0x8A,
             CHR 0x20, CHR 0xD8, CHR 0xA7, CHR 0xD9, CHR 0x84, CHR 0xD9, CHR 0x88, CHR 0xD9,
             CHR 0x82, CHR 0xD8, CHR 0xAA, CHR 0x2E]\<rparr>]\<rparr>"

definition projects :: "Project list" where
  "projects = [project_1, project_2, project_3, project_4, project_5, project_6,
        project_7, project_8, project_9, project_10]"

text \<open>
  \<^verbatim>\<open>export const getProjectById = (id: number) => projects.find((p) => p.id === id);\<close>

  \<^verbatim>\<open>Array.prototype.find\<close> returns the first element the predicate accepts, and
  \<^verbatim>\<open>undefined\<close> (\<^const>\<open>None\<close>) when there is none, as \<^const>\<open>find\<close> does.
\<close>

definition getProjectById :: "int \<Rightarrow> Project option" where
  "getProjectById i = find (\<lambda>p. id_num p = i) projects"

section \<open>src/components/ProjectCard.tsx and the project details page: buildRepeatedSlides\<close>












section \<open>src/hooks/useInView.ts\<close>

text \<open>
  The hook keeps the flag \<^verbatim>\<open>inView\<close> (\<^verbatim>\<open>useState(false)\<close>) and, while its effect is
  active, an \<^verbatim>\<open>IntersectionObserver\<close> that observes the bound element. \<open>observed\<close>
  says whether the observer currently observes the element. The policy \<^verbatim>\<open>once\<close> is
  fixed when the tracker is created and is a parameter of every operation.
\<close>

record reveal =
  inView :: bool
  observed :: bool

text \<open>An \<^verbatim>\<open>IntersectionObserverEntry\<close>, of which the callback reads \<^verbatim>\<open>isIntersecting\<close>.\<close>

datatype entry = Entry (isIntersecting: bool)

text \<open>The state of a tracker that has rendered and not yet bound an element.\<close>

definition reveal_init :: reveal where
  "reveal_init = \<lparr>inView = False, observed = False\<rparr>"

text \<open>
  The body of the observer callback for one entry:
  \<^verbatim>\<open>
  if (entry.isIntersecting) {
    setInView(true);
    if (once) io.unobserve(entry.target);
  } else if (!once) {
    setInView(false);
  }
  \<close>
\<close>

definition on_entry :: "bool \<Rightarrow> reveal \<Rightarrow> entry \<Rightarrow> reveal" where
  "on_entry once s e =
     (if isIntersecting e then
        (let s1 = s\<lparr>inView := True\<rparr> in if once then s1\<lparr>observed := False\<rparr> else s1)
      else if \<not> once then s\<lparr>inView := False\<rparr>
      else s)"

text \<open>\<^verbatim>\<open>entries.forEach((entry) => { ... })\<close>: the entries of one notification, in order.\<close>

definition callback :: "bool \<Rightarrow> reveal \<Rightarrow> entry list \<Rightarrow> reveal" where
  "callback once s entries = foldl (on_entry once) s entries"

text \<open>
  What can happen to a tracker: the effect runs with an element bound
  (\<^verbatim>\<open>io.observe(el)\<close>), the browser delivers a notification, or the effect is cleaned up
  (\<^verbatim>\<open>io.disconnect()\<close>). The browser delivers notifications for observed elements only.
\<close>

datatype reveal_event = Bind | Notify "entry list" | Unbind

fun reveal_step :: "bool \<Rightarrow> reveal \<Rightarrow> reveal_event \<Rightarrow> reveal" where
  "reveal_step once s Bind = s\<lparr>observed := True\<rparr>"
| "reveal_step once s (Notify entries) = (if observed s then callback once s entries else s)"
| "reveal_step once s Unbind = s\<lparr>observed := False\<rparr>"

text \<open>The states a tracker passes through, one after each event.\<close>

fun reveal_trace :: "bool \<Rightarrow> reveal \<Rightarrow> reveal_event list \<Rightarrow> reveal list" where
  "reveal_trace once s [] = []"
| "reveal_trace once s (ev # evs) =
     (let s' = reveal_step once s ev in s' # reveal_trace once s' evs)"

section \<open>src/hooks/useScrollTrigger.ts\<close>

text \<open>
  The hook keeps the flag \<^verbatim>\<open>triggered\<close> (\<^verbatim>\<open>useState(false)\<close>) and the reference
  \<^verbatim>\<open>ticking\<close> (\<^verbatim>\<open>useRef(false)\<close>), which both live as long as the component is mounted,
  across runs of the effect. Around them is the part of the browser the hook talks to:
  \<^item> \<open>scrollY\<close>: the scroll offset of the window, \<^verbatim>\<open>window.scrollY\<close>;
  \<^item> \<open>listener\<close>: the scroll listener the hook has registered, if any. A listener is the
    closure \<^verbatim>\<open>onScroll\<close> of one run of the effect and is identified by the threshold
    it has captured;
  \<^item> \<open>frames\<close>: the callbacks passed to \<^verbatim>\<open>requestAnimationFrame\<close> that have not run
    yet, oldest first, each identified by the threshold it has captured;
  \<^item> \<open>mounted\<close>: whether the component is mounted. React drops a state update of a
    component that is no longer mounted.
  Offsets and thresholds are whole pixels.
\<close>

record scroll_tracker =
  triggered :: bool
  ticking :: bool
  scrollY :: int
  listener :: "int option"
  frames :: "int list"
  mounted :: bool

text \<open>\<^verbatim>\<open>setTriggered(v)\<close>\<close>

definition setTriggered :: "bool \<Rightarrow> scroll_tracker \<Rightarrow> scroll_tracker" where
  "setTriggered v s = (if mounted s then s\<lparr>triggered := v\<rparr> else s)"

text \<open>
  The callback handed to \<^verbatim>\<open>requestAnimationFrame\<close>:
  \<^verbatim>\<open>
  () => {
    const y = window.scrollY || window.pageYOffset;
    setTriggered(y > threshold);
    ticking.current = false;
  }
  \<close>
  \<^verbatim>\<open>pageYOffset\<close> is an alias of \<^verbatim>\<open>scrollY\<close>, so \<^verbatim>\<open>y\<close> is the scroll offset.
\<close>

definition frame_callback :: "int \<Rightarrow> scroll_tracker \<Rightarrow> scroll_tracker" where
  "frame_callback threshold s =
     (let y = scrollY s in (setTriggered (y > threshold) s)\<lparr>ticking := False\<rparr>)"

text \<open>
  \<^verbatim>\<open>
  const onScroll = () => {
    if (ticking.current) return;
    ticking.current = true;
    requestAnimationFrame(() => { ... });
  };
  \<close>
\<close>

definition onScroll :: "int \<Rightarrow> scroll_tracker \<Rightarrow> scroll_tracker" where
  "onScroll threshold s =
     (if ticking s then s
      else s\<lparr>ticking := True, frames := frames s @ [threshold]\<rparr>)"

text \<open>
  The body of the effect, run on mount and again whenever \<^verbatim>\<open>threshold\<close> changes:
  \<^verbatim>\<open>
  onScroll();
  window.addEventListener('scroll', onScroll, { passive: true });
  \<close>
\<close>

definition activate :: "int \<Rightarrow> scroll_tracker \<Rightarrow> scroll_tracker" where
  "activate threshold s = (onScroll threshold s)\<lparr>listener := Some threshold\<rparr>"

text \<open>
  The cleanup the effect returns, run before the effect runs again and on unmount:
  \<^verbatim>\<open>return () => window.removeEventListener('scroll', onScroll);\<close>
\<close>

definition deactivate :: "scroll_tracker \<Rightarrow> scroll_tracker" where
  "deactivate s = s\<lparr>listener := None\<rparr>"

text \<open>
  The events of a tracker's life:
  \<^item> \<open>Mount threshold\<close>: the component mounts and the effect runs;
  \<^item> \<open>Scroll y\<close>: the window scrolls to offset \<open>y\<close> and the registered listener is called;
  \<^item> \<open>Frame\<close>: the next display refresh runs the pending frame callbacks, in order;
  \<^item> \<open>Rebind threshold\<close>: the component renders with another threshold; React runs the
    cleanup of the old effect and then the effect anew;
  \<^item> \<open>Unmount\<close>: the component unmounts; React runs the cleanup.
\<close>

datatype scroll_event = Mount int | Scroll int | Frame | Rebind int | Unmount

definition tracker_init :: "int \<Rightarrow> scroll_tracker" where
  "tracker_init y =
     \<lparr>triggered = False, ticking = False, scrollY = y, listener = None, frames = [],
      mounted = False\<rparr>"

fun scroll_step :: "scroll_tracker \<Rightarrow> scroll_event \<Rightarrow> scroll_tracker" where
  "scroll_step s (Mount threshold) = activate threshold (s\<lparr>mounted := True\<rparr>)"
| "scroll_step s (Scroll y) =
     (let s1 = s\<lparr>scrollY := y\<rparr>
      in case listener s1 of Some threshold \<Rightarrow> onScroll threshold s1 | None \<Rightarrow> s1)"
| "scroll_step s Frame =
     foldl (\<lambda>s1 threshold. frame_callback threshold s1) (s\<lparr>frames := []\<rparr>) (frames s)"
| "scroll_step s (Rebind threshold) = activate threshold (deactivate s)"
| "scroll_step s Unmount = (deactivate s)\<lparr>mounted := False\<rparr>"

definition scroll_run :: "scroll_tracker \<Rightarrow> scroll_event list \<Rightarrow> scroll_tracker" where
  "scroll_run s evs = foldl scroll_step s evs"

section \<open>contexts/ThemeContext: ThemeProvider\<close>

text \<open>
  The provider talks to \<^verbatim>\<open>localStorage\<close>, which is part of the browser. Its entries
  are strings under string keys. The browser can refuse every access (storage disabled:
  reading and writing raise \<^verbatim>\<open>SecurityError\<close>) and can refuse a write for lack of
  space (\<^verbatim>\<open>QuotaExceededError\<close>). A raised exception is the left summand of a result.
\<close>

datatype storage_error = SecurityError | QuotaExceededError

record storage =
  items :: "string \<rightharpoonup> string"
  available :: bool
  full :: bool

text \<open>\<^verbatim>\<open>localStorage.getItem(key)\<close>: the entry, or \<^verbatim>\<open>null\<close> (\<^const>\<open>None\<close>).\<close>

definition getItem :: "storage \<Rightarrow> string \<Rightarrow> storage_error + string option" where
  "getItem st key = (if available st then Inr (items st key) else Inl SecurityError)"

text \<open>\<^verbatim>\<open>localStorage.setItem(key, value)\<close>\<close>

definition setItem :: "storage \<Rightarrow> string \<Rightarrow> string \<Rightarrow> storage_error + storage" where
  "setItem st key v =
     (if \<not> available st then Inl SecurityError
      else if full st then Inl QuotaExceededError
      else Inr (st\<lparr>items := (items st)(key \<mapsto> v)\<rparr>))"

text \<open>
  The state of the provider:
  \<^verbatim>\<open>
  const [theme, setTheme] = useState<'light' | 'dark'>('light');
  const [language, setLanguage] = useState<'en' | 'ar'>('en');
  \<close>
  The two types are checked at compile time only, and the value read from storage enters
  the state through a cast (\<^verbatim>\<open>as 'light' | 'dark' | null\<close>), so at run time each field
  holds a string.
\<close>

record preferences =
  theme :: string
  language :: string

definition initial_preferences :: preferences where
  "initial_preferences = \<lparr>theme = ''light'', language = ''en''\<rparr>"

text \<open>
  The first effect, run once after the first render:
  \<^verbatim>\<open>
  const savedTheme = localStorage.getItem('theme') as 'light' | 'dark' | null;
  const savedLanguage = localStorage.getItem('language') as 'en' | 'ar' | null;
  if (savedTheme) setTheme(savedTheme);
  if (savedLanguage) setLanguage(savedLanguage);
  \<close>
  \<^verbatim>\<open>if (savedTheme)\<close> holds for every string but the empty one. Nothing catches an
  exception of \<^verbatim>\<open>getItem\<close>, so it leaves the effect.
\<close>

definition load_preferences :: "storage \<Rightarrow> preferences \<Rightarrow> storage_error + preferences" where
  "load_preferences st p =
     (case getItem st ''theme'' of
        Inl e \<Rightarrow> Inl e
      | Inr savedTheme \<Rightarrow>
          (case getItem st ''language'' of
             Inl e \<Rightarrow> Inl e
           | Inr savedLanguage \<Rightarrow>
               (let p1 = (case savedTheme of
                            Some v \<Rightarrow> if v \<noteq> '''' then p\<lparr>theme := v\<rparr> else p
                          | None \<Rightarrow> p);
                    p2 = (case savedLanguage of
                            Some v \<Rightarrow> if v \<noteq> '''' then p1\<lparr>language := v\<rparr> else p1
                          | None \<Rightarrow> p1)
                in Inr p2)))"

text \<open>The three attributes of \<^verbatim>\<open>document.documentElement\<close> the provider sets.\<close>

record document =
  className :: string
  dir :: string
  lang :: string

text \<open>
  The second effect, run after every render in which \<^verbatim>\<open>theme\<close> or \<^verbatim>\<open>language\<close>
  has changed, and after the first:
  \<^verbatim>\<open>
  document.documentElement.className = theme;
  document.documentElement.dir = language === 'ar' ? 'rtl' : 'ltr';
  document.documentElement.lang = language;
  localStorage.setItem('theme', theme);
  localStorage.setItem('language', language);
  \<close>
  Nothing catches an exception of \<^verbatim>\<open>setItem\<close> either.
\<close>

definition apply_preferences ::
  "preferences \<Rightarrow> storage \<Rightarrow> storage_error + (document \<times> storage)" where
  "apply_preferences p st =
     (let d = \<lparr>className = theme p,
               dir = (if language p = ''ar'' then ''rtl'' else ''ltr''),
               lang = language p\<rparr>
      in case setItem st ''theme'' (theme p) of
           Inl e \<Rightarrow> Inl e
         | Inr st1 \<Rightarrow>
             (case setItem st1 ''language'' (language p) of
                Inl e \<Rightarrow> Inl e
              | Inr st2 \<Rightarrow> Inr (d, st2)))"

text \<open>
  \<^verbatim>\<open>
  const toggleTheme = () => { setTheme(prev => prev === 'light' ? 'dark' : 'light'); };
  const toggleLanguage = () => { setLanguage(prev => prev === 'en' ? 'ar' : 'en'); };
  \<close>
\<close>

definition toggleTheme :: "preferences \<Rightarrow> preferences" where
  "toggleTheme p = p\<lparr>theme := (if theme p = ''light'' then ''dark'' else ''light'')\<rparr>"

definition toggleLanguage :: "preferences \<Rightarrow> preferences" where
  "toggleLanguage p = p\<lparr>language := (if language p = ''en'' then ''ar'' else ''en'')\<rparr>"

text \<open>
  The states of the declared type: \<^verbatim>\<open>theme: 'light' | 'dark'\<close> and
  \<^verbatim>\<open>language: 'en' | 'ar'\<close> (\<^verbatim>\<open>ThemeContextType\<close>).
\<close>

definition declared :: "preferences \<Rightarrow> bool" where
  "declared p \<longleftrightarrow>
     (theme p = ''light'' \<or> theme p = ''dark'') \<and> (language p = ''en'' \<or> language p = ''ar'')"

text \<open>
  Mounting the provider: the first render shows the initial state; then both effects run,
  in the order of their declaration, the second one with the values of that render; the
  state updates of the first effect cause a second render, after which the second effect
  runs again if a value has changed.
\<close>

definition mount :: "storage \<Rightarrow> storage_error + (preferences \<times> document \<times> storage)" where
  "mount st =
     (case load_preferences st initial_preferences of
        Inl e \<Rightarrow> Inl e
      | Inr p \<Rightarrow>
          (case apply_preferences initial_preferences st of
             Inl e \<Rightarrow> Inl e
           | Inr (d1, st1) \<Rightarrow>
               if p = initial_preferences then Inr (p, d1, st1)
               else (case apply_preferences p st1 of
                       Inl e \<Rightarrow> Inl e
                     | Inr (d2, st2) \<Rightarrow> Inr (p, d2, st2))))"

text \<open>
  Pressing one of the two switches of the header: the state update, the render, and the
  second effect, which runs because a value has changed.
\<close>

datatype toggle = ToggleTheme | ToggleLanguage

definition press ::
  "toggle \<Rightarrow> preferences \<times> document \<times> storage \<Rightarrow>
     storage_error + (preferences \<times> document \<times> storage)" where
  "press tg state =
     (case state of (p, d, st) \<Rightarrow>
        (let p' = (case tg of ToggleTheme \<Rightarrow> toggleTheme p | ToggleLanguage \<Rightarrow> toggleLanguage p)
         in if p' = p then Inr (p', d, st)
            else (case apply_preferences p' st of
                    Inl e \<Rightarrow> Inl e
                  | Inr (d', st') \<Rightarrow> Inr (p', d', st'))))"

text \<open>Storages on which the provider is run below.\<close>

definition storage_of :: "(string \<times> string) list \<Rightarrow> storage" where
  "storage_of kvs = \<lparr>items = map_of kvs, available = True, full = False\<rparr>"

definition storage_disabled :: storage where
  "storage_disabled = \<lparr>items = Map.empty, available = False, full = False\<rparr>"

definition storage_full :: storage where
  "storage_full = \<lparr>items = Map.empty, available = True, full = True\<rparr>"

section \<open>Localized-field resolution\<close>



section \<open>Translation lookup\<close>

lemma translations_home: "translations_table En ''home'' = Some ''Home''"
  by (simp add: translations_table_def translations_en_def)

text \<open>
  C4. For every key of the translation table and both languages, the lookup returns a
  string (never \<^verbatim>\<open>undefined\<close>). More generally, over any table whose English object
  holds the key, the lookup returns a string, and when the object of the requested language
  lacks the key the result is the English string, which is also what the lookup for
  English returns.
\<close>

theorem translation_lookup_total:
  "(k \<in> dom (translations_table En) \<longrightarrow> (\<exists>s. useTranslation l k = Some s))
   \<and> (tbl En k = Some e \<longrightarrow>
        (\<exists>s. t_of tbl l k = Some s)
        \<and> (tbl l k = None \<longrightarrow> t_of tbl l k = Some e \<and> t_of tbl l k = t_of tbl En k))"
  by (auto simp: useTranslation_def t_of_def logical_or_def split: option.splits)

theorem translation_lookup_total_witness:
  "''home'' \<in> dom (translations_table En)
   \<and> (\<exists>s. useTranslation Ar ''home'' = Some s)
   \<and> sample_table En ''home'' = Some ''Home''
   \<and> sample_table Ar ''home'' = None
   \<and> t_of sample_table Ar ''home'' = Some ''Home''
   \<and> t_of sample_table Ar ''home'' = t_of sample_table En ''home''"
proof -
  have en_home: "sample_table En ''home'' = Some ''Home''"
    and ar_home: "sample_table Ar ''home'' = None"
    by (simp_all add: sample_table_def)
  have in_table: "''home'' \<in> dom (translations_table En)"
    by (simp add: translations_home dom_def)
  from translation_lookup_total [of "''home''" Ar sample_table "''Home''"]
    en_home ar_home in_table
  show ?thesis by metis
qed

text \<open>
  C10. The fallback of the lookup is decided by truthiness, not by presence: when the
  entry of the requested language is the empty string (or is missing), the lookup returns
  the English entry. \<open>localize\<close> does the opposite on the same edge: a field that is
  present and empty is returned as it is, with no fallback.
\<close>

theorem translation_fallback_on_empty:
  "(tbl l k = Some '''' \<or> tbl l k = None \<longrightarrow> t_of tbl l k = tbl En k)
   \<and> (tbl l k = Some s \<and> s \<noteq> '''' \<longrightarrow> t_of tbl l k = Some s)
   \<and> (field x l = Some '''' \<longrightarrow> localize (Text x) l = '''')"
  by (auto simp: t_of_def logical_or_def nullish_def nullish_or_def)

theorem translation_fallback_on_empty_witness:
  "sample_table Ar ''about'' = Some ''''
   \<and> t_of sample_table Ar ''about'' = Some ''About''
   \<and> sample_table En ''about'' = Some ''About'' \<and> ''About'' \<noteq> ''''
   \<and> t_of sample_table En ''about'' = Some ''About''
   \<and> field \<lparr>en = Some ''About'', ar = Some ''''\<rparr> Ar = Some ''''
   \<and> localize (Text \<lparr>en = Some ''About'', ar = Some ''''\<rparr>) Ar = ''''"
  using translation_fallback_on_empty [of sample_table Ar "''about''" "''About''"
      "\<lparr>en = Some ''About'', ar = Some ''''\<rparr>"]
    translation_fallback_on_empty [of sample_table En "''about''" "''About''"
      "\<lparr>en = Some ''About'', ar = Some ''''\<rparr>"]
  by (simp add: sample_table_def)

section \<open>Project lookup\<close>

lemma project_id_simps:
  "id_num project_1 = 1" "id_num project_2 = 2" "id_num project_3 = 3" "id_num project_4 = 4"
  "id_num project_5 = 5" "id_num project_6 = 6" "id_num project_7 = 7" "id_num project_8 = 8"
  "id_num project_9 = 9" "id_num project_10 = 10"
  by (simp_all add: project_1_def project_2_def project_3_def project_4_def
      project_5_def project_6_def project_7_def project_8_def project_9_def project_10_def)

lemma project_ids: "map id_num projects = [1, 2, 3, 4, 5, 6, 7, 8, 9, 10]"
  by (simp add: projects_def project_id_simps)

lemma find_some_member:
  "(\<exists>p \<in> set ps. P p) \<Longrightarrow> \<exists>p. find P ps = Some p \<and> P p \<and> p \<in> set ps"
  by (induction ps) auto

text \<open>
  C7. \<open>getProjectById\<close> is total: for every integer it returns either a project or the
  explicit absent value. When some project of the collection has the id, the result is a
  project of the collection whose \<open>id\<close> equals the argument; when none has it, the result
  is the absent value.
\<close>

theorem getProjectById_total:
  "((\<exists>p \<in> set projects. id_num p = i) \<longrightarrow>
      (\<exists>p. getProjectById i = Some p \<and> id_num p = i \<and> p \<in> set projects))
   \<and> ((\<forall>p \<in> set projects. id_num p \<noteq> i) \<longrightarrow> getProjectById i = None)"
proof (intro conjI impI)
  assume "\<exists>p \<in> set projects. id_num p = i"
  from find_some_member [of projects "\<lambda>p. id_num p = i", OF this]
  show "\<exists>p. getProjectById i = Some p \<and> id_num p = i \<and> p \<in> set projects"
    by (simp add: getProjectById_def)
next
  assume "\<forall>p \<in> set projects. id_num p \<noteq> i"
  then show "getProjectById i = None"
    by (simp add: getProjectById_def find_None_iff)
qed

theorem getProjectById_total_witness:
  "project_3 \<in> set projects \<and> id_num project_3 = 3
   \<and> getProjectById 3 = Some project_3
   \<and> 11 \<notin> id_num ` set projects
   \<and> getProjectById 11 = None"
proof -
  have has3: "\<exists>p \<in> set projects. id_num p = 3"
    by (simp add: projects_def project_id_simps)
  have no11: "\<forall>p \<in> set projects. id_num p \<noteq> 11"
    by (simp add: projects_def project_id_simps)
  have at3: "find (\<lambda>p. id_num p = 3) projects = Some project_3"
    by (simp add: projects_def project_id_simps)
  from getProjectById_total [of 3] getProjectById_total [of 11] has3 no11 at3
  show ?thesis
    by (auto simp: getProjectById_def project_id_simps)
qed

section \<open>Slide repetition\<close>






section \<open>Viewport reveal tracker\<close>

lemma on_entry_once_keeps: "inView s \<Longrightarrow> inView (on_entry True s e)"
  by (simp add: on_entry_def Let_def)

lemma callback_once_keeps: "inView s \<Longrightarrow> inView (callback True s entries)"
  unfolding callback_def
  by (induction entries arbitrary: s) (simp_all add: on_entry_once_keeps)

lemma reveal_step_once_keeps: "inView s \<Longrightarrow> inView (reveal_step True s ev)"
  by (cases ev) (simp_all add: callback_once_keeps)

lemma reveal_trace_once_keeps:
  "inView s \<Longrightarrow> s' \<in> set (reveal_trace True s evs) \<Longrightarrow> inView s'"
proof (induction evs arbitrary: s)
  case Nil
  then show ?case by simp
next
  case (Cons ev evs)
  have kept: "inView (reveal_step True s ev)"
    using Cons.prems(1) by (rule reveal_step_once_keeps)
  from Cons.prems(2) have "s' = reveal_step True s ev
      \<or> s' \<in> set (reveal_trace True (reveal_step True s ev) evs)"
    by (simp add: Let_def)
  then show ?case
    using kept Cons.IH [OF kept] by blast
qed

text \<open>
  C6. With \<open>once = true\<close>, from a state whose flag is true no notification and no
  sequence of events (notifications that the element left the viewport among them, and
  bindings and unbindings) leads to a state whose flag is false. With \<open>once = false\<close> the
  flag of an observed element is whatever the last entry reports, so after binding, the
  sequence entered, left, entered gives the flags true, false, true.
\<close>

theorem reveal_once_policy:
  "(inView s \<longrightarrow> inView (callback True s entries)
      \<and> (\<forall>s' \<in> set (reveal_trace True s evs). inView s'))
   \<and> (observed u \<longrightarrow> inView (reveal_step False u (Notify [Entry b])) = b)
   \<and> map inView (reveal_trace False reveal_init
        [Bind, Notify [Entry True], Notify [Entry False], Notify [Entry True]])
       = [False, True, False, True]"
proof (intro conjI impI)
  assume "inView s"
  then show "inView (callback True s entries)"
    by (rule callback_once_keeps)
  from \<open>inView s\<close> show "\<forall>s' \<in> set (reveal_trace True s evs). inView s'"
    using reveal_trace_once_keeps by blast
next
  assume "observed u"
  then show "inView (reveal_step False u (Notify [Entry b])) = b"
    by (simp add: callback_def on_entry_def)
next
  show "map inView (reveal_trace False reveal_init
        [Bind, Notify [Entry True], Notify [Entry False], Notify [Entry True]])
       = [False, True, False, True]"
    by (simp add: reveal_init_def callback_def on_entry_def Let_def)
qed

theorem reveal_once_policy_witness:
  "inView (reveal_step True (reveal_step True reveal_init Bind) (Notify [Entry True]))
   \<and> inView (callback True
         (reveal_step True (reveal_step True reveal_init Bind) (Notify [Entry True]))
         [Entry False])
   \<and> map inView (reveal_trace True
         (reveal_step True (reveal_step True reveal_init Bind) (Notify [Entry True]))
         [Notify [Entry False], Bind, Notify [Entry False], Unbind]) = [True, True, True, True]
   \<and> observed (reveal_step False (reveal_step False reveal_init Bind) (Notify [Entry True]))
   \<and> inView (reveal_step False (reveal_step False reveal_init Bind) (Notify [Entry True]))
   \<and> \<not> inView (reveal_step False
         (reveal_step False (reveal_step False reveal_init Bind) (Notify [Entry True]))
         (Notify [Entry False]))"
  using reveal_once_policy
    [of "reveal_step True (reveal_step True reveal_init Bind) (Notify [Entry True])"
      "[Entry False]" "[Notify [Entry False], Bind, Notify [Entry False], Unbind]"
      "reveal_step False (reveal_step False reveal_init Bind) (Notify [Entry True])" False]
  by (simp add: reveal_init_def callback_def on_entry_def Let_def)

section \<open>Preference store\<close>




text \<open>
  C2 says that no read or write of the store lets an exception reach the caller and that a
  failing storage operation is skipped. In the provider neither effect catches anything:
  with storage disabled the initial read raises \<open>SecurityError\<close> out of the first effect
  and out of mounting; with storage full the write raises \<open>QuotaExceededError\<close> out of
  mounting and out of the effect that follows a toggle.
\<close>

theorem storage_failure_propagates:
  "load_preferences storage_disabled initial_preferences = Inl SecurityError
   \<and> mount storage_disabled = Inl SecurityError
   \<and> mount storage_full = Inl QuotaExceededError
   \<and> press ToggleTheme
        (initial_preferences, \<lparr>className = ''light'', dir = ''ltr'', lang = ''en''\<rparr>,
         storage_full)
       = Inl QuotaExceededError"
  by (simp add: load_preferences_def getItem_def setItem_def mount_def press_def
      apply_preferences_def toggleTheme_def storage_disabled_def storage_full_def
      initial_preferences_def Let_def)

text \<open>
  C8 is claimed from any state of the store. The store initializes to a state
  outside the two values when the persisted entry is another string: with the persisted
  theme \<open>blue\<close> the theme is \<open>blue\<close>, and toggling twice gives \<open>light\<close> and then \<open>dark\<close>,
  not \<open>blue\<close>; with the persisted language \<open>fr\<close>, toggling twice gives \<open>en\<close> and then
  \<open>ar\<close>.
\<close>

theorem toggle_round_trip_counterexample:
  "load_preferences (storage_of [(''theme'', ''blue'')]) initial_preferences
     = Inr \<lparr>theme = ''blue'', language = ''en''\<rparr>
   \<and> theme (toggleTheme \<lparr>theme = ''blue'', language = ''en''\<rparr>) = ''light''
   \<and> theme (toggleTheme (toggleTheme \<lparr>theme = ''blue'', language = ''en''\<rparr>)) = ''dark''
   \<and> ''dark'' \<noteq> ''blue''
   \<and> load_preferences (storage_of [(''language'', ''fr'')]) initial_preferences
     = Inr \<lparr>theme = ''light'', language = ''fr''\<rparr>
   \<and> language (toggleLanguage \<lparr>theme = ''light'', language = ''fr''\<rparr>) = ''en''
   \<and> language (toggleLanguage (toggleLanguage \<lparr>theme = ''light'', language = ''fr''\<rparr>))
     = ''ar''
   \<and> ''ar'' \<noteq> ''fr''"
  by (simp add: load_preferences_def getItem_def storage_of_def initial_preferences_def
      toggleTheme_def toggleLanguage_def)

text \<open>
  C8, amended. From any state whose \<open>theme\<close> is \<open>light\<close> or \<open>dark\<close>, toggling the theme
  twice gives back the theme, and the whole state; from any state whose \<open>language\<close> is
  \<open>en\<close> or \<open>ar\<close>, toggling the language twice gives back the language, and the whole
  state. One toggle turns \<open>light\<close> into \<open>dark\<close> and every other theme into \<open>light\<close>, \<open>en\<close>
  into \<open>ar\<close> and every other language into \<open>en\<close>, and leaves the other field alone. So
  after one toggle the field holds one of its two values, two more toggles give it back
  from any state, and a state of the declared type stays one.
\<close>

theorem toggle_round_trip:
  "(theme p = ''light'' \<or> theme p = ''dark'' \<longrightarrow>
      theme (toggleTheme (toggleTheme p)) = theme p \<and> toggleTheme (toggleTheme p) = p)
   \<and> (language p = ''en'' \<or> language p = ''ar'' \<longrightarrow>
      language (toggleLanguage (toggleLanguage p)) = language p
      \<and> toggleLanguage (toggleLanguage p) = p)
   \<and> theme (toggleTheme p) = (if theme p = ''light'' then ''dark'' else ''light'')
   \<and> language (toggleLanguage p) = (if language p = ''en'' then ''ar'' else ''en'')
   \<and> language (toggleTheme p) = language p
   \<and> theme (toggleLanguage p) = theme p
   \<and> toggleTheme (toggleTheme (toggleTheme p)) = toggleTheme p
   \<and> toggleLanguage (toggleLanguage (toggleLanguage p)) = toggleLanguage p
   \<and> (declared p \<longrightarrow> declared (toggleTheme p) \<and> declared (toggleLanguage p))"
  by (auto simp: declared_def toggleTheme_def toggleLanguage_def)

theorem toggle_round_trip_witness:
  "theme \<lparr>theme = ''dark'', language = ''en''\<rparr> = ''dark''
   \<and> language \<lparr>theme = ''dark'', language = ''en''\<rparr> = ''en''
   \<and> declared \<lparr>theme = ''dark'', language = ''en''\<rparr>
   \<and> toggleTheme \<lparr>theme = ''dark'', language = ''en''\<rparr>
       = \<lparr>theme = ''light'', language = ''en''\<rparr>
   \<and> toggleTheme (toggleTheme \<lparr>theme = ''dark'', language = ''en''\<rparr>)
       = \<lparr>theme = ''dark'', language = ''en''\<rparr>
   \<and> toggleLanguage \<lparr>theme = ''dark'', language = ''en''\<rparr>
       = \<lparr>theme = ''dark'', language = ''ar''\<rparr>
   \<and> toggleLanguage (toggleLanguage \<lparr>theme = ''dark'', language = ''en''\<rparr>)
       = \<lparr>theme = ''dark'', language = ''en''\<rparr>"
  using toggle_round_trip [of "\<lparr>theme = ''dark'', language = ''en''\<rparr>"]
  by (simp add: declared_def toggleTheme_def toggleLanguage_def)

section \<open>Scroll threshold tracker\<close>

text \<open>
  After an unmount React drops the state update of a frame callback that was still
  pending, so the flag stays as it was.
\<close>

lemma unmounted_frame_callback: "\<not> mounted s \<Longrightarrow>
    \<not> mounted (frame_callback th s) \<and> triggered (frame_callback th s) = triggered s"
  by (simp add: frame_callback_def setTriggered_def)

lemma unmounted_frames_fold:
  "\<not> mounted s \<Longrightarrow>
     triggered (foldl (\<lambda>s1 threshold. frame_callback threshold s1) s ths) = triggered s"
  by (induction ths arbitrary: s) (simp_all add: unmounted_frame_callback)

lemma unmounted_frame_keeps_flag:
  "\<not> mounted s \<Longrightarrow> triggered (scroll_step s Frame) = triggered s"
  using unmounted_frames_fold [of "s\<lparr>frames := []\<rparr>" "frames s"] by simp

text \<open>
  C9 says that after the tracker is deactivated a re-evaluation that was already scheduled
  has no effect on the flag. The cleanup removes the listener and does not cancel the
  frame request. At scroll offset 200, a tracker with threshold 10 has a frame callback
  pending right after activation and its flag is false. When its cleanup runs before the
  next refresh, the callback still runs at the refresh and sets the flag to true. This is
  what happens when the threshold changes to 400: the new effect schedules nothing, since
  \<open>ticking\<close> is still set, and the old callback sets the flag by the old threshold,
  although the offset does not exceed the new one.
\<close>

theorem pending_frame_runs_after_unbind:
  "frames (scroll_run (tracker_init 200) [Mount 10]) = [10]
   \<and> \<not> triggered (scroll_run (tracker_init 200) [Mount 10])
   \<and> listener (deactivate (scroll_run (tracker_init 200) [Mount 10])) = None
   \<and> triggered (scroll_step (deactivate (scroll_run (tracker_init 200) [Mount 10])) Frame)
   \<and> \<not> triggered (scroll_run (tracker_init 200) [Mount 10, Rebind 400])
   \<and> triggered (scroll_run (tracker_init 200) [Mount 10, Rebind 400, Frame])
   \<and> \<not> scrollY (scroll_run (tracker_init 200) [Mount 10, Rebind 400, Frame]) > 400"
  by (simp add: scroll_run_def tracker_init_def activate_def deactivate_def onScroll_def
      frame_callback_def setTriggered_def Let_def)

end
